theory Spec2Isabelle
  imports Main "HOL-Library.Word"
begin

unbundle bit_operations_syntax

section \<open>The Tegra210 XUSB pad controller (drivers/phy/tegra/xusb-tegra210.c)\<close>

text \<open>
  A shallow embedding of the shared-PHY core of the driver: the UPHY PLL calibration
  sequences, the reference-counted controller enable/disable, the USB3 port power
  sequences, the port/lane mapping tables and the OTG VBUS/ID override logic.

  The driver talks to three things that are not C data: the memory-mapped register
  block, the clock, and other kernel subsystems (reset controller, clock framework,
  regulators, work queue). They are modelled as follows.
  \<^item> The register block is a store \<open>regs\<close> of the values last written, and a read goes
    through \<open>hw_read\<close>, a parameter: what a read returns is decided by the hardware
    (status bits, time), so every theorem that quantifies over the environment holds
    for every behaviour of the hardware.
  \<^item> Time is a counter \<open>clock\<close> in microseconds; \<open>jiffies\<close> reads it. \<open>usleep_range\<close>
    advances it by at least its lower bound (the scheduler may oversleep).
  \<^item> Every register write, delay, call into another subsystem and log message is
    appended to \<open>trace\<close>, in program order.
  \<^item> \<open>padctl->lock\<close> is the flag \<open>lock_held\<close>; \<open>mutex_lock\<close> on a held mutex never
    returns in a sequential run, which is the result \<open>None\<close>.
\<close>

type_synonym u32 = "32 word"

subsection \<open>Register offsets and fields (the driver's macros)\<close>

abbreviation BIT :: "nat \<Rightarrow> u32" where "BIT n \<equiv> push_bit n 1"

abbreviation XUSB_PADCTL_SS_PORT_MAP :: nat where "XUSB_PADCTL_SS_PORT_MAP \<equiv> 0x014"
abbreviation XUSB_PADCTL_SS_PORT_MAP_PORTX_INTERNAL :: "nat \<Rightarrow> u32" where
  "XUSB_PADCTL_SS_PORT_MAP_PORTX_INTERNAL x \<equiv> push_bit (x * 5 + 4) 1"
abbreviation XUSB_PADCTL_SS_PORT_MAP_PORTX_MAP_MASK :: "nat \<Rightarrow> u32" where
  "XUSB_PADCTL_SS_PORT_MAP_PORTX_MAP_MASK x \<equiv> push_bit (x * 5) 0x7"
abbreviation XUSB_PADCTL_SS_PORT_MAP_PORTX_MAP :: "nat \<Rightarrow> u32 \<Rightarrow> u32" where
  "XUSB_PADCTL_SS_PORT_MAP_PORTX_MAP x v \<equiv> push_bit (x * 5) (v AND 0x7)"

abbreviation XUSB_PADCTL_ELPG_PROGRAM_1 :: nat where "XUSB_PADCTL_ELPG_PROGRAM_1 \<equiv> 0x024"
abbreviation SSPX_ELPG_CLAMP_EN :: "nat \<Rightarrow> u32" where
  "SSPX_ELPG_CLAMP_EN x \<equiv> BIT (0 + x * 3)"
abbreviation SSPX_ELPG_CLAMP_EN_EARLY :: "nat \<Rightarrow> u32" where
  "SSPX_ELPG_CLAMP_EN_EARLY x \<equiv> BIT (1 + x * 3)"
abbreviation SSPX_ELPG_VCORE_DOWN :: "nat \<Rightarrow> u32" where
  "SSPX_ELPG_VCORE_DOWN x \<equiv> BIT (2 + x * 3)"
abbreviation AUX_MUX_LP0_CLAMP_EN :: u32 where "AUX_MUX_LP0_CLAMP_EN \<equiv> BIT 29"
abbreviation AUX_MUX_LP0_CLAMP_EN_EARLY :: u32 where "AUX_MUX_LP0_CLAMP_EN_EARLY \<equiv> BIT 30"
abbreviation AUX_MUX_LP0_VCORE_DOWN :: u32 where "AUX_MUX_LP0_VCORE_DOWN \<equiv> BIT 31"

abbreviation XUSB_PADCTL_UPHY_PLL_P0_CTL1 :: nat where "XUSB_PADCTL_UPHY_PLL_P0_CTL1 \<equiv> 0x360"
abbreviation XUSB_PADCTL_UPHY_PLL_CTL1_FREQ_NDIV_SHIFT :: nat where
  "XUSB_PADCTL_UPHY_PLL_CTL1_FREQ_NDIV_SHIFT \<equiv> 20"
abbreviation XUSB_PADCTL_UPHY_PLL_CTL1_FREQ_NDIV_MASK :: u32 where
  "XUSB_PADCTL_UPHY_PLL_CTL1_FREQ_NDIV_MASK \<equiv> 0xff"
abbreviation XUSB_PADCTL_UPHY_PLL_CTL1_FREQ_NDIV_USB_VAL :: u32 where
  "XUSB_PADCTL_UPHY_PLL_CTL1_FREQ_NDIV_USB_VAL \<equiv> 0x19"
abbreviation XUSB_PADCTL_UPHY_PLL_CTL1_FREQ_NDIV_SATA_VAL :: u32 where
  "XUSB_PADCTL_UPHY_PLL_CTL1_FREQ_NDIV_SATA_VAL \<equiv> 0x1e"
abbreviation XUSB_PADCTL_UPHY_PLL_CTL1_FREQ_MDIV_SHIFT :: nat where
  "XUSB_PADCTL_UPHY_PLL_CTL1_FREQ_MDIV_SHIFT \<equiv> 16"
abbreviation XUSB_PADCTL_UPHY_PLL_CTL1_FREQ_MDIV_MASK :: u32 where
  "XUSB_PADCTL_UPHY_PLL_CTL1_FREQ_MDIV_MASK \<equiv> 0x3"
abbreviation XUSB_PADCTL_UPHY_PLL_CTL1_LOCKDET_STATUS :: u32 where
  "XUSB_PADCTL_UPHY_PLL_CTL1_LOCKDET_STATUS \<equiv> push_bit 15 1"
abbreviation XUSB_PADCTL_UPHY_PLL_CTL1_PWR_OVRD :: u32 where
  "XUSB_PADCTL_UPHY_PLL_CTL1_PWR_OVRD \<equiv> push_bit 4 1"
abbreviation XUSB_PADCTL_UPHY_PLL_CTL1_ENABLE :: u32 where
  "XUSB_PADCTL_UPHY_PLL_CTL1_ENABLE \<equiv> push_bit 3 1"
abbreviation XUSB_PADCTL_UPHY_PLL_CTL1_SLEEP_SHIFT :: nat where
  "XUSB_PADCTL_UPHY_PLL_CTL1_SLEEP_SHIFT \<equiv> 1"
abbreviation XUSB_PADCTL_UPHY_PLL_CTL1_SLEEP_MASK :: u32 where
  "XUSB_PADCTL_UPHY_PLL_CTL1_SLEEP_MASK \<equiv> 0x3"
abbreviation XUSB_PADCTL_UPHY_PLL_CTL1_IDDQ :: u32 where
  "XUSB_PADCTL_UPHY_PLL_CTL1_IDDQ \<equiv> push_bit 0 1"

abbreviation XUSB_PADCTL_UPHY_PLL_P0_CTL2 :: nat where "XUSB_PADCTL_UPHY_PLL_P0_CTL2 \<equiv> 0x364"
abbreviation XUSB_PADCTL_UPHY_PLL_CTL2_CAL_CTRL_SHIFT :: nat where
  "XUSB_PADCTL_UPHY_PLL_CTL2_CAL_CTRL_SHIFT \<equiv> 4"
abbreviation XUSB_PADCTL_UPHY_PLL_CTL2_CAL_CTRL_MASK :: u32 where
  "XUSB_PADCTL_UPHY_PLL_CTL2_CAL_CTRL_MASK \<equiv> 0xffffff"
abbreviation XUSB_PADCTL_UPHY_PLL_CTL2_CAL_CTRL_VAL :: u32 where
  "XUSB_PADCTL_UPHY_PLL_CTL2_CAL_CTRL_VAL \<equiv> 0x136"
abbreviation XUSB_PADCTL_UPHY_PLL_CTL2_CAL_OVRD :: u32 where
  "XUSB_PADCTL_UPHY_PLL_CTL2_CAL_OVRD \<equiv> push_bit 2 1"
abbreviation XUSB_PADCTL_UPHY_PLL_CTL2_CAL_DONE :: u32 where
  "XUSB_PADCTL_UPHY_PLL_CTL2_CAL_DONE \<equiv> push_bit 1 1"
abbreviation XUSB_PADCTL_UPHY_PLL_CTL2_CAL_EN :: u32 where
  "XUSB_PADCTL_UPHY_PLL_CTL2_CAL_EN \<equiv> push_bit 0 1"

abbreviation XUSB_PADCTL_UPHY_PLL_P0_CTL4 :: nat where "XUSB_PADCTL_UPHY_PLL_P0_CTL4 \<equiv> 0x36c"
abbreviation XUSB_PADCTL_UPHY_PLL_CTL4_TXCLKREF_EN :: u32 where
  "XUSB_PADCTL_UPHY_PLL_CTL4_TXCLKREF_EN \<equiv> push_bit 15 1"
abbreviation XUSB_PADCTL_UPHY_PLL_CTL4_TXCLKREF_SEL_SHIFT :: nat where
  "XUSB_PADCTL_UPHY_PLL_CTL4_TXCLKREF_SEL_SHIFT \<equiv> 12"
abbreviation XUSB_PADCTL_UPHY_PLL_CTL4_TXCLKREF_SEL_MASK :: u32 where
  "XUSB_PADCTL_UPHY_PLL_CTL4_TXCLKREF_SEL_MASK \<equiv> 0x3"
abbreviation XUSB_PADCTL_UPHY_PLL_CTL4_TXCLKREF_SEL_USB_VAL :: u32 where
  "XUSB_PADCTL_UPHY_PLL_CTL4_TXCLKREF_SEL_USB_VAL \<equiv> 0x2"
abbreviation XUSB_PADCTL_UPHY_PLL_CTL4_TXCLKREF_SEL_SATA_VAL :: u32 where
  "XUSB_PADCTL_UPHY_PLL_CTL4_TXCLKREF_SEL_SATA_VAL \<equiv> 0x0"
abbreviation XUSB_PADCTL_UPHY_PLL_CTL4_REFCLKBUF_EN :: u32 where
  "XUSB_PADCTL_UPHY_PLL_CTL4_REFCLKBUF_EN \<equiv> push_bit 8 1"
abbreviation XUSB_PADCTL_UPHY_PLL_CTL4_REFCLK_SEL_SHIFT :: nat where
  "XUSB_PADCTL_UPHY_PLL_CTL4_REFCLK_SEL_SHIFT \<equiv> 4"
abbreviation XUSB_PADCTL_UPHY_PLL_CTL4_REFCLK_SEL_MASK :: u32 where
  "XUSB_PADCTL_UPHY_PLL_CTL4_REFCLK_SEL_MASK \<equiv> 0xf"

abbreviation XUSB_PADCTL_UPHY_PLL_P0_CTL5 :: nat where "XUSB_PADCTL_UPHY_PLL_P0_CTL5 \<equiv> 0x370"
abbreviation XUSB_PADCTL_UPHY_PLL_CTL5_DCO_CTRL_SHIFT :: nat where
  "XUSB_PADCTL_UPHY_PLL_CTL5_DCO_CTRL_SHIFT \<equiv> 16"
abbreviation XUSB_PADCTL_UPHY_PLL_CTL5_DCO_CTRL_MASK :: u32 where
  "XUSB_PADCTL_UPHY_PLL_CTL5_DCO_CTRL_MASK \<equiv> 0xff"
abbreviation XUSB_PADCTL_UPHY_PLL_CTL5_DCO_CTRL_VAL :: u32 where
  "XUSB_PADCTL_UPHY_PLL_CTL5_DCO_CTRL_VAL \<equiv> 0x2a"

abbreviation XUSB_PADCTL_UPHY_PLL_P0_CTL8 :: nat where "XUSB_PADCTL_UPHY_PLL_P0_CTL8 \<equiv> 0x37c"
abbreviation XUSB_PADCTL_UPHY_PLL_CTL8_RCAL_DONE :: u32 where
  "XUSB_PADCTL_UPHY_PLL_CTL8_RCAL_DONE \<equiv> push_bit 31 1"
abbreviation XUSB_PADCTL_UPHY_PLL_CTL8_RCAL_OVRD :: u32 where
  "XUSB_PADCTL_UPHY_PLL_CTL8_RCAL_OVRD \<equiv> push_bit 15 1"
abbreviation XUSB_PADCTL_UPHY_PLL_CTL8_RCAL_CLK_EN :: u32 where
  "XUSB_PADCTL_UPHY_PLL_CTL8_RCAL_CLK_EN \<equiv> push_bit 13 1"
abbreviation XUSB_PADCTL_UPHY_PLL_CTL8_RCAL_EN :: u32 where
  "XUSB_PADCTL_UPHY_PLL_CTL8_RCAL_EN \<equiv> push_bit 12 1"

abbreviation CFG_ADDR :: "8 word \<Rightarrow> u32" where "CFG_ADDR x \<equiv> push_bit 16 (ucast x AND 0xff)"
abbreviation CFG_WDATA :: "16 word \<Rightarrow> u32" where "CFG_WDATA x \<equiv> push_bit 0 (ucast x AND 0xffff)"
abbreviation CFG_RESET :: u32 where "CFG_RESET \<equiv> push_bit 27 1"
abbreviation CFG_WS :: u32 where "CFG_WS \<equiv> push_bit 24 1"

abbreviation XUSB_PADCTL_UPHY_PLL_S0_CTL1 :: nat where "XUSB_PADCTL_UPHY_PLL_S0_CTL1 \<equiv> 0x860"
abbreviation XUSB_PADCTL_UPHY_PLL_S0_CTL2 :: nat where "XUSB_PADCTL_UPHY_PLL_S0_CTL2 \<equiv> 0x864"
abbreviation XUSB_PADCTL_UPHY_PLL_S0_CTL4 :: nat where "XUSB_PADCTL_UPHY_PLL_S0_CTL4 \<equiv> 0x86c"
abbreviation XUSB_PADCTL_UPHY_PLL_S0_CTL5 :: nat where "XUSB_PADCTL_UPHY_PLL_S0_CTL5 \<equiv> 0x870"
abbreviation XUSB_PADCTL_UPHY_PLL_S0_CTL8 :: nat where "XUSB_PADCTL_UPHY_PLL_S0_CTL8 \<equiv> 0x87c"
abbreviation XUSB_PADCTL_UPHY_PLL_S0_CTL10 :: nat where "XUSB_PADCTL_UPHY_PLL_S0_CTL10 \<equiv> 0x384"

abbreviation XUSB_PADCTL_UPHY_USB3_PADX_ECTL1 :: "nat \<Rightarrow> nat" where
  "XUSB_PADCTL_UPHY_USB3_PADX_ECTL1 x \<equiv> 0xa60 + x * 0x40"
abbreviation XUSB_PADCTL_UPHY_USB3_PAD_ECTL1_TX_TERM_CTRL_SHIFT :: nat where
  "XUSB_PADCTL_UPHY_USB3_PAD_ECTL1_TX_TERM_CTRL_SHIFT \<equiv> 16"
abbreviation XUSB_PADCTL_UPHY_USB3_PAD_ECTL1_TX_TERM_CTRL_MASK :: u32 where
  "XUSB_PADCTL_UPHY_USB3_PAD_ECTL1_TX_TERM_CTRL_MASK \<equiv> 0x3"
abbreviation XUSB_PADCTL_UPHY_USB3_PAD_ECTL1_TX_TERM_CTRL_VAL :: u32 where
  "XUSB_PADCTL_UPHY_USB3_PAD_ECTL1_TX_TERM_CTRL_VAL \<equiv> 0x2"
abbreviation XUSB_PADCTL_UPHY_USB3_PADX_ECTL2 :: "nat \<Rightarrow> nat" where
  "XUSB_PADCTL_UPHY_USB3_PADX_ECTL2 x \<equiv> 0xa64 + x * 0x40"
abbreviation XUSB_PADCTL_UPHY_USB3_PAD_ECTL2_RX_CTLE_SHIFT :: nat where
  "XUSB_PADCTL_UPHY_USB3_PAD_ECTL2_RX_CTLE_SHIFT \<equiv> 0"
abbreviation XUSB_PADCTL_UPHY_USB3_PAD_ECTL2_RX_CTLE_MASK :: u32 where
  "XUSB_PADCTL_UPHY_USB3_PAD_ECTL2_RX_CTLE_MASK \<equiv> 0xffff"
abbreviation XUSB_PADCTL_UPHY_USB3_PAD_ECTL2_RX_CTLE_VAL :: u32 where
  "XUSB_PADCTL_UPHY_USB3_PAD_ECTL2_RX_CTLE_VAL \<equiv> 0x00fc"
abbreviation XUSB_PADCTL_UPHY_USB3_PADX_ECTL3 :: "nat \<Rightarrow> nat" where
  "XUSB_PADCTL_UPHY_USB3_PADX_ECTL3 x \<equiv> 0xa68 + x * 0x40"
abbreviation XUSB_PADCTL_UPHY_USB3_PAD_ECTL3_RX_DFE_VAL :: u32 where
  "XUSB_PADCTL_UPHY_USB3_PAD_ECTL3_RX_DFE_VAL \<equiv> 0xc0077f1f"
abbreviation XUSB_PADCTL_UPHY_USB3_PADX_ECTL4 :: "nat \<Rightarrow> nat" where
  "XUSB_PADCTL_UPHY_USB3_PADX_ECTL4 x \<equiv> 0xa6c + x * 0x40"
abbreviation XUSB_PADCTL_UPHY_USB3_PAD_ECTL4_RX_CDR_CTRL_SHIFT :: nat where
  "XUSB_PADCTL_UPHY_USB3_PAD_ECTL4_RX_CDR_CTRL_SHIFT \<equiv> 16"
abbreviation XUSB_PADCTL_UPHY_USB3_PAD_ECTL4_RX_CDR_CTRL_MASK :: u32 where
  "XUSB_PADCTL_UPHY_USB3_PAD_ECTL4_RX_CDR_CTRL_MASK \<equiv> 0xffff"
abbreviation XUSB_PADCTL_UPHY_USB3_PAD_ECTL4_RX_CDR_CTRL_VAL :: u32 where
  "XUSB_PADCTL_UPHY_USB3_PAD_ECTL4_RX_CDR_CTRL_VAL \<equiv> 0x01c7"
abbreviation XUSB_PADCTL_UPHY_USB3_PADX_ECTL6 :: "nat \<Rightarrow> nat" where
  "XUSB_PADCTL_UPHY_USB3_PADX_ECTL6 x \<equiv> 0xa74 + x * 0x40"
abbreviation XUSB_PADCTL_UPHY_USB3_PAD_ECTL6_RX_EQ_CTRL_H_VAL :: u32 where
  "XUSB_PADCTL_UPHY_USB3_PAD_ECTL6_RX_EQ_CTRL_H_VAL \<equiv> 0xfcf01368"

abbreviation XUSB_PADCTL_USB2_VBUS_ID :: nat where "XUSB_PADCTL_USB2_VBUS_ID \<equiv> 0xc60"
abbreviation VBUS_OVERRIDE_VBUS_ON :: u32 where "VBUS_OVERRIDE_VBUS_ON \<equiv> BIT 14"
abbreviation ID_OVERRIDE :: "u32 \<Rightarrow> u32" where "ID_OVERRIDE x \<equiv> push_bit 18 (x AND 0xf)"
abbreviation ID_OVERRIDE_GROUNDED :: u32 where "ID_OVERRIDE_GROUNDED \<equiv> ID_OVERRIDE 0"
abbreviation ID_OVERRIDE_FLOATING :: u32 where "ID_OVERRIDE_FLOATING \<equiv> ID_OVERRIDE 8"

text \<open>The errno values of the kernel headers.\<close>

abbreviation ENODEV :: int where "ENODEV \<equiv> 19"
abbreviation EINVAL :: int where "EINVAL \<equiv> 22"
abbreviation ETIMEDOUT :: int where "ETIMEDOUT \<equiv> 110"

subsection \<open>State, environment and the primitive operations\<close>

datatype reset_line = Pcie_rst | Sata_rst

datatype clk = Plle | Uphy_mgmt_clk

text \<open>Calls into other kernel subsystems that the driver makes.\<close>

datatype extcall =
    Reset_control_deassert reset_line
  | Clk_prepare_enable clk
  | Xusb_pll_hw_control_enable
  | Xusb_pll_hw_sequence_start
  | Sata_pll_hw_control_enable
  | Sata_pll_hw_sequence_start
  | Plle_hw_sequence_start
  | Regulator_enable nat
  | Regulator_disable nat
  | Select_vbus_en_state int bool

datatype event =
    Wr nat u32
  | Usleep nat nat
  | Ext extcall
  | Dev_err string
  | Warn_on
  | Schedule_work

text \<open>
  \<open>struct tegra_xusb_usb2_port\<close>, as far as the VBUS code reads it: whether a
  \<open>vbus-supply\<close> regulator is present, and the over-current pin (\<open>supply\<close> is a keyword of Isabelle, hence \<open>vbus_supply\<close>).
\<close>

record usb2_port =
  vbus_supply :: bool
  oc_pin :: int

text \<open>
  The environment: the hardware behind the registers, the scheduler, the device tree
  and board configuration, and the results of the calls into other subsystems.
\<close>

record env =
  hw_read :: "nat \<Rightarrow> (nat \<Rightarrow> u32) \<Rightarrow> nat \<Rightarrow> u32"
  oversleep :: "nat \<Rightarrow> nat"
  compatible :: "string option"
  sata_used_by_xusb :: bool
  reset_control_deassert :: "reset_line \<Rightarrow> int"
  clk_prepare_enable :: "clk \<Rightarrow> int"
  plle_hw_sequence_is_enabled :: bool
  find_usb2_port :: "nat \<Rightarrow> usb2_port option"
  oc_pinctrl :: bool
  otg_vbus_alwayson :: bool
  regulator_is_enabled :: "nat \<Rightarrow> nat \<Rightarrow> int"
  regulator_enable :: "nat \<Rightarrow> int"
  regulator_disable :: "nat \<Rightarrow> int"
  select_vbus_en_state :: "int \<Rightarrow> bool \<Rightarrow> int"

text \<open>
  The mutable part of \<open>struct tegra_xusb_padctl\<close> (\<open>enable\<close>, \<open>lock\<close>,
  \<open>otg_vbus_on\<close>) together with the register store, the clock and the trace.
\<close>

record state =
  regs :: "nat \<Rightarrow> u32"
  clock :: nat
  trace :: "event list"
  enable :: u32
  lock_held :: bool
  otg_vbus_on :: bool

definition padctl_readl :: "env \<Rightarrow> state \<Rightarrow> nat \<Rightarrow> u32" where
  "padctl_readl env s offset = hw_read env (clock s) (regs s) offset"

definition padctl_writel :: "u32 \<Rightarrow> nat \<Rightarrow> state \<Rightarrow> state" where
  "padctl_writel value offset s =
     s\<lparr>regs := (regs s)(offset := value), trace := trace s @ [Wr offset value]\<rparr>"

text \<open>
  The driver's register updates are all of the shape
  \<^verbatim>\<open>value = padctl_readl(padctl, off); value &= ~...; value |= ...; padctl_writel(padctl, value, off);\<close>
  which is \<open>padctl_update env off (\<lambda>value. ...)\<close>.
\<close>

definition padctl_update :: "env \<Rightarrow> nat \<Rightarrow> (u32 \<Rightarrow> u32) \<Rightarrow> state \<Rightarrow> state" where
  "padctl_update env offset f s = padctl_writel (f (padctl_readl env s offset)) offset s"

definition usleep_range :: "env \<Rightarrow> nat \<Rightarrow> nat \<Rightarrow> state \<Rightarrow> state" where
  "usleep_range env lo hi s =
     s\<lparr>clock := clock s + lo + oversleep env (clock s), trace := trace s @ [Usleep lo hi]\<rparr>"

definition ext_call :: "extcall \<Rightarrow> state \<Rightarrow> state" where
  "ext_call c s = s\<lparr>trace := trace s @ [Ext c]\<rparr>"

definition dev_err :: "string \<Rightarrow> state \<Rightarrow> state" where
  "dev_err msg s = s\<lparr>trace := trace s @ [Dev_err msg]\<rparr>"

definition jiffies :: "state \<Rightarrow> nat" where
  "jiffies s = clock s"

definition msecs_to_jiffies :: "nat \<Rightarrow> nat" where
  "msecs_to_jiffies m = m * 1000"

definition time_before :: "nat \<Rightarrow> nat \<Rightarrow> bool" where
  "time_before a b = (a < b)"

definition time_after_eq :: "nat \<Rightarrow> nat \<Rightarrow> bool" where
  "time_after_eq a b = (b \<le> a)"

text \<open>
  The polling loop that the calibration functions repeat after every enable bit:
  \<^verbatim>\<open>
  while (time_before(jiffies, timeout)) {
          value = padctl_readl(padctl, off);
          if (value & flag)         /* or: if (!(value & flag)) */
                  break;
          usleep_range(10, 20);
  }\<close>
  \<open>want\<close> is \<open>True\<close> for the first form and \<open>False\<close> for the negated one.
\<close>

function poll_loop :: "env \<Rightarrow> nat \<Rightarrow> u32 \<Rightarrow> bool \<Rightarrow> nat \<Rightarrow> state \<Rightarrow> state" where
  "poll_loop env offset flag want timeout s =
     (if time_before (jiffies s) timeout then
        (let value = padctl_readl env s offset in
         if (value AND flag \<noteq> 0) = want then s
         else poll_loop env offset flag want timeout (usleep_range env 10 20 s))
      else s)"
  by pat_completeness auto
termination
  by (relation "measure (\<lambda>(env, offset, flag, want, timeout, s). timeout - clock s)")
     (auto simp: usleep_range_def time_before_def jiffies_def)

declare poll_loop.simps [simp del]

text \<open>
  One poll with its deadline, and the test that follows it:
  \<^verbatim>\<open>
  timeout = jiffies + msecs_to_jiffies(100);
  while (...) { ... }
  if (time_after_eq(jiffies, timeout)) err = -ETIMEDOUT;\<close>
  \<open>poll\<close> returns whether that last test holds, and the state after the loop; the
  caller assigns \<open>err\<close>.
\<close>

definition poll :: "env \<Rightarrow> nat \<Rightarrow> u32 \<Rightarrow> bool \<Rightarrow> state \<Rightarrow> bool \<times> state" where
  "poll env offset flag want s =
     (let timeout = jiffies s + msecs_to_jiffies 100;
          s' = poll_loop env offset flag want timeout s
      in (time_after_eq (jiffies s') timeout, s'))"

subsection \<open>SoC revision\<close>

fun starts_with :: "string \<Rightarrow> string \<Rightarrow> bool" where
  "starts_with _ [] = True"
| "starts_with [] (_ # _) = False"
| "starts_with (c # cs) (d # ds) = (c = d \<and> starts_with cs ds)"

text \<open>\<open>strstr h n \<noteq> NULL\<close>.\<close>

fun strstr :: "string \<Rightarrow> string \<Rightarrow> bool" where
  "strstr [] n = starts_with [] n"
| "strstr (c # cs) n = (starts_with (c # cs) n \<or> strstr cs n)"

definition t210b01_compatible_ret :: "env \<Rightarrow> int" where
  "t210b01_compatible_ret env =
     (case compatible env of
        None \<Rightarrow> - ENODEV
      | Some c \<Rightarrow> if strstr c ''tegra210b01'' then 1 else 0)"

definition t210b01_compatible :: "env \<Rightarrow> state \<Rightarrow> int \<times> state" where
  "t210b01_compatible env s =
     (case compatible env of
        None \<Rightarrow> (- ENODEV, dev_err ''Failed to get compatible property'' s)
      | Some c \<Rightarrow> (if strstr c ''tegra210b01'' then 1 else 0, s))"

subsection \<open>UPHY PLL calibration (\<open>tegra210_pex_uphy_enable\<close>, \<open>tegra210_sata_uphy_enable\<close>)\<close>

record init_data =
  cfg_addr :: "8 word"
  cfg_wdata :: "16 word"

definition usb3_pll_g1_init_data :: "init_data list" where
  "usb3_pll_g1_init_data =
     [\<lparr>cfg_addr = 0x2, cfg_wdata = 0x0000\<rparr>,
      \<lparr>cfg_addr = 0x3, cfg_wdata = 0x7051\<rparr>,
      \<lparr>cfg_addr = 0x25, cfg_wdata = 0x0130\<rparr>,
      \<lparr>cfg_addr = 0x1E, cfg_wdata = 0x0017\<rparr>]"

text \<open>
  Must be called under \<open>padctl->lock\<close>. The local \<open>err\<close> holds the result of the reset
  call and then \<open>-ETIMEDOUT\<close> after a poll that ran out of time; it is only ever used
  to decide whether to log. The function ends in \<^verbatim>\<open>return 0;\<close>.
\<close>

definition tegra210_pex_uphy_enable :: "env \<Rightarrow> state \<Rightarrow> int \<times> state" where
  "tegra210_pex_uphy_enable env s =
     (let err = reset_control_deassert env Pcie_rst;
          s = ext_call (Reset_control_deassert Pcie_rst) s;
          s = (if err < 0 then dev_err ''failed to deassert UPHY PEX PLL reset'' s else s);
          (compat, s) = t210b01_compatible env s;
          s = (if compat = 1 then
                 foldl (\<lambda>s d. padctl_writel
                          (0 OR CFG_ADDR (cfg_addr d) OR CFG_WDATA (cfg_wdata d) OR CFG_RESET OR CFG_WS)
                          XUSB_PADCTL_UPHY_PLL_S0_CTL10 s)
                   s usb3_pll_g1_init_data
               else
                 (let s = padctl_update env XUSB_PADCTL_UPHY_PLL_P0_CTL2 (\<lambda>value.
                            (value AND NOT (push_bit XUSB_PADCTL_UPHY_PLL_CTL2_CAL_CTRL_SHIFT
                                              XUSB_PADCTL_UPHY_PLL_CTL2_CAL_CTRL_MASK))
                            OR push_bit XUSB_PADCTL_UPHY_PLL_CTL2_CAL_CTRL_SHIFT
                                 XUSB_PADCTL_UPHY_PLL_CTL2_CAL_CTRL_VAL) s;
                      s = padctl_update env XUSB_PADCTL_UPHY_PLL_P0_CTL5 (\<lambda>value.
                            (value AND NOT (push_bit XUSB_PADCTL_UPHY_PLL_CTL5_DCO_CTRL_SHIFT
                                              XUSB_PADCTL_UPHY_PLL_CTL5_DCO_CTRL_MASK))
                            OR push_bit XUSB_PADCTL_UPHY_PLL_CTL5_DCO_CTRL_SHIFT
                                 XUSB_PADCTL_UPHY_PLL_CTL5_DCO_CTRL_VAL) s
                  in s));
          s = padctl_update env XUSB_PADCTL_UPHY_PLL_P0_CTL1 (\<lambda>value.
                value OR XUSB_PADCTL_UPHY_PLL_CTL1_PWR_OVRD) s;
          s = padctl_update env XUSB_PADCTL_UPHY_PLL_P0_CTL2 (\<lambda>value.
                value OR XUSB_PADCTL_UPHY_PLL_CTL2_CAL_OVRD) s;
          s = padctl_update env XUSB_PADCTL_UPHY_PLL_P0_CTL8 (\<lambda>value.
                value OR XUSB_PADCTL_UPHY_PLL_CTL8_RCAL_OVRD) s;
          s = padctl_update env XUSB_PADCTL_UPHY_PLL_P0_CTL4 (\<lambda>value.
                (value AND NOT (push_bit XUSB_PADCTL_UPHY_PLL_CTL4_TXCLKREF_SEL_SHIFT
                                  XUSB_PADCTL_UPHY_PLL_CTL4_TXCLKREF_SEL_MASK
                                OR push_bit XUSB_PADCTL_UPHY_PLL_CTL4_REFCLK_SEL_SHIFT
                                     XUSB_PADCTL_UPHY_PLL_CTL4_REFCLK_SEL_MASK))
                OR (push_bit XUSB_PADCTL_UPHY_PLL_CTL4_TXCLKREF_SEL_SHIFT
                      XUSB_PADCTL_UPHY_PLL_CTL4_TXCLKREF_SEL_USB_VAL
                    OR XUSB_PADCTL_UPHY_PLL_CTL4_TXCLKREF_EN)) s;
          s = padctl_update env XUSB_PADCTL_UPHY_PLL_P0_CTL1 (\<lambda>value.
                (value AND NOT (push_bit XUSB_PADCTL_UPHY_PLL_CTL1_FREQ_MDIV_SHIFT
                                  XUSB_PADCTL_UPHY_PLL_CTL1_FREQ_MDIV_MASK
                                OR push_bit XUSB_PADCTL_UPHY_PLL_CTL1_FREQ_NDIV_SHIFT
                                     XUSB_PADCTL_UPHY_PLL_CTL1_FREQ_NDIV_MASK))
                OR push_bit XUSB_PADCTL_UPHY_PLL_CTL1_FREQ_NDIV_SHIFT
                     XUSB_PADCTL_UPHY_PLL_CTL1_FREQ_NDIV_USB_VAL) s;
          s = padctl_update env XUSB_PADCTL_UPHY_PLL_P0_CTL1 (\<lambda>value.
                value AND NOT XUSB_PADCTL_UPHY_PLL_CTL1_IDDQ) s;
          s = padctl_update env XUSB_PADCTL_UPHY_PLL_P0_CTL1 (\<lambda>value.
                value AND NOT (push_bit XUSB_PADCTL_UPHY_PLL_CTL1_SLEEP_SHIFT
                                 XUSB_PADCTL_UPHY_PLL_CTL1_SLEEP_MASK)) s;
          s = usleep_range env 10 20 s;
          s = padctl_update env XUSB_PADCTL_UPHY_PLL_P0_CTL4 (\<lambda>value.
                value OR XUSB_PADCTL_UPHY_PLL_CTL4_REFCLKBUF_EN) s;
          s = padctl_update env XUSB_PADCTL_UPHY_PLL_P0_CTL2 (\<lambda>value.
                value OR XUSB_PADCTL_UPHY_PLL_CTL2_CAL_EN) s;
          (timed_out, s) = poll env XUSB_PADCTL_UPHY_PLL_P0_CTL2
                             XUSB_PADCTL_UPHY_PLL_CTL2_CAL_DONE True s;
          err = (if timed_out then - ETIMEDOUT else err);
          s = padctl_update env XUSB_PADCTL_UPHY_PLL_P0_CTL2 (\<lambda>value.
                value AND NOT XUSB_PADCTL_UPHY_PLL_CTL2_CAL_EN) s;
          (timed_out, s) = poll env XUSB_PADCTL_UPHY_PLL_P0_CTL2
                             XUSB_PADCTL_UPHY_PLL_CTL2_CAL_DONE False s;
          err = (if timed_out then - ETIMEDOUT else err);
          s = padctl_update env XUSB_PADCTL_UPHY_PLL_P0_CTL1 (\<lambda>value.
                value OR XUSB_PADCTL_UPHY_PLL_CTL1_ENABLE) s;
          (timed_out, s) = poll env XUSB_PADCTL_UPHY_PLL_P0_CTL1
                             XUSB_PADCTL_UPHY_PLL_CTL1_LOCKDET_STATUS True s;
          err = (if timed_out then - ETIMEDOUT else err);
          s = padctl_update env XUSB_PADCTL_UPHY_PLL_P0_CTL8 (\<lambda>value.
                value OR (XUSB_PADCTL_UPHY_PLL_CTL8_RCAL_EN
                          OR XUSB_PADCTL_UPHY_PLL_CTL8_RCAL_CLK_EN)) s;
          (timed_out, s) = poll env XUSB_PADCTL_UPHY_PLL_P0_CTL8
                             XUSB_PADCTL_UPHY_PLL_CTL8_RCAL_DONE True s;
          err = (if timed_out then - ETIMEDOUT else err);
          s = padctl_update env XUSB_PADCTL_UPHY_PLL_P0_CTL8 (\<lambda>value.
                value AND NOT XUSB_PADCTL_UPHY_PLL_CTL8_RCAL_EN) s;
          (timed_out, s) = poll env XUSB_PADCTL_UPHY_PLL_P0_CTL8
                             XUSB_PADCTL_UPHY_PLL_CTL8_RCAL_DONE False s;
          err = (if timed_out then - ETIMEDOUT else err);
          s = padctl_update env XUSB_PADCTL_UPHY_PLL_P0_CTL8 (\<lambda>value.
                value AND NOT XUSB_PADCTL_UPHY_PLL_CTL8_RCAL_CLK_EN) s;
          s = (if err = - ETIMEDOUT then dev_err ''UPHY PEX PLL calibration timeout'' s else s);
          s = ext_call Xusb_pll_hw_control_enable s;
          s = padctl_update env XUSB_PADCTL_UPHY_PLL_P0_CTL1 (\<lambda>value.
                value AND NOT XUSB_PADCTL_UPHY_PLL_CTL1_PWR_OVRD) s;
          s = padctl_update env XUSB_PADCTL_UPHY_PLL_P0_CTL2 (\<lambda>value.
                value AND NOT XUSB_PADCTL_UPHY_PLL_CTL2_CAL_OVRD) s;
          s = padctl_update env XUSB_PADCTL_UPHY_PLL_P0_CTL8 (\<lambda>value.
                value AND NOT XUSB_PADCTL_UPHY_PLL_CTL8_RCAL_OVRD) s;
          s = usleep_range env 10 20 s;
          s = ext_call Xusb_pll_hw_sequence_start s
      in (0, s))"

text \<open>
  The SATA PLL. The source computes a new value for \<open>PLL_S0_CTL4\<close> (reference
  selector, depending on \<open>sata_used_by_xusb\<close>) but the write that follows is commented
  out and \<open>value\<close> is reloaded from \<open>PLL_S0_CTL1\<close>, so that value is dropped: the model
  has no write to \<open>PLL_S0_CTL4\<close> at that point.
\<close>

definition tegra210_sata_uphy_enable :: "env \<Rightarrow> state \<Rightarrow> int \<times> state" where
  "tegra210_sata_uphy_enable env s =
     (let err = reset_control_deassert env Sata_rst;
          s = ext_call (Reset_control_deassert Sata_rst) s;
          s = (if err < 0 then dev_err ''failed to deassert UPHY SATA PLL reset'' s else s);
          s = padctl_update env XUSB_PADCTL_UPHY_PLL_S0_CTL2 (\<lambda>value.
                (value AND NOT (push_bit XUSB_PADCTL_UPHY_PLL_CTL2_CAL_CTRL_SHIFT
                                  XUSB_PADCTL_UPHY_PLL_CTL2_CAL_CTRL_MASK))
                OR push_bit XUSB_PADCTL_UPHY_PLL_CTL2_CAL_CTRL_SHIFT
                     XUSB_PADCTL_UPHY_PLL_CTL2_CAL_CTRL_VAL) s;
          s = padctl_update env XUSB_PADCTL_UPHY_PLL_S0_CTL5 (\<lambda>value.
                (value AND NOT (push_bit XUSB_PADCTL_UPHY_PLL_CTL5_DCO_CTRL_SHIFT
                                  XUSB_PADCTL_UPHY_PLL_CTL5_DCO_CTRL_MASK))
                OR push_bit XUSB_PADCTL_UPHY_PLL_CTL5_DCO_CTRL_SHIFT
                     XUSB_PADCTL_UPHY_PLL_CTL5_DCO_CTRL_VAL) s;
          s = padctl_update env XUSB_PADCTL_UPHY_PLL_S0_CTL1 (\<lambda>value.
                value OR XUSB_PADCTL_UPHY_PLL_CTL1_PWR_OVRD) s;
          s = padctl_update env XUSB_PADCTL_UPHY_PLL_S0_CTL2 (\<lambda>value.
                value OR XUSB_PADCTL_UPHY_PLL_CTL2_CAL_OVRD) s;
          s = padctl_update env XUSB_PADCTL_UPHY_PLL_S0_CTL8 (\<lambda>value.
                value OR XUSB_PADCTL_UPHY_PLL_CTL8_RCAL_OVRD) s;
          s = padctl_update env XUSB_PADCTL_UPHY_PLL_S0_CTL1 (\<lambda>value.
                (value AND NOT (push_bit XUSB_PADCTL_UPHY_PLL_CTL1_FREQ_MDIV_SHIFT
                                  XUSB_PADCTL_UPHY_PLL_CTL1_FREQ_MDIV_MASK
                                OR push_bit XUSB_PADCTL_UPHY_PLL_CTL1_FREQ_NDIV_SHIFT
                                     XUSB_PADCTL_UPHY_PLL_CTL1_FREQ_NDIV_MASK))
                OR (if sata_used_by_xusb env
                    then push_bit XUSB_PADCTL_UPHY_PLL_CTL1_FREQ_NDIV_SHIFT
                           XUSB_PADCTL_UPHY_PLL_CTL1_FREQ_NDIV_USB_VAL
                    else push_bit XUSB_PADCTL_UPHY_PLL_CTL1_FREQ_NDIV_SHIFT
                           XUSB_PADCTL_UPHY_PLL_CTL1_FREQ_NDIV_SATA_VAL)) s;
          s = padctl_update env XUSB_PADCTL_UPHY_PLL_S0_CTL1 (\<lambda>value.
                value AND NOT XUSB_PADCTL_UPHY_PLL_CTL1_IDDQ) s;
          s = padctl_update env XUSB_PADCTL_UPHY_PLL_S0_CTL1 (\<lambda>value.
                value AND NOT (push_bit XUSB_PADCTL_UPHY_PLL_CTL1_SLEEP_SHIFT
                                 XUSB_PADCTL_UPHY_PLL_CTL1_SLEEP_MASK)) s;
          s = usleep_range env 10 20 s;
          s = padctl_update env XUSB_PADCTL_UPHY_PLL_S0_CTL4 (\<lambda>value.
                value OR XUSB_PADCTL_UPHY_PLL_CTL4_REFCLKBUF_EN) s;
          s = padctl_update env XUSB_PADCTL_UPHY_PLL_S0_CTL2 (\<lambda>value.
                value OR XUSB_PADCTL_UPHY_PLL_CTL2_CAL_EN) s;
          (timed_out, s) = poll env XUSB_PADCTL_UPHY_PLL_S0_CTL2
                             XUSB_PADCTL_UPHY_PLL_CTL2_CAL_DONE True s;
          err = (if timed_out then - ETIMEDOUT else err);
          s = padctl_update env XUSB_PADCTL_UPHY_PLL_S0_CTL2 (\<lambda>value.
                value AND NOT XUSB_PADCTL_UPHY_PLL_CTL2_CAL_EN) s;
          (timed_out, s) = poll env XUSB_PADCTL_UPHY_PLL_S0_CTL2
                             XUSB_PADCTL_UPHY_PLL_CTL2_CAL_DONE False s;
          err = (if timed_out then - ETIMEDOUT else err);
          s = padctl_update env XUSB_PADCTL_UPHY_PLL_S0_CTL1 (\<lambda>value.
                value OR XUSB_PADCTL_UPHY_PLL_CTL1_ENABLE) s;
          (timed_out, s) = poll env XUSB_PADCTL_UPHY_PLL_S0_CTL1
                             XUSB_PADCTL_UPHY_PLL_CTL1_LOCKDET_STATUS True s;
          err = (if timed_out then - ETIMEDOUT else err);
          s = padctl_update env XUSB_PADCTL_UPHY_PLL_S0_CTL8 (\<lambda>value.
                value OR (XUSB_PADCTL_UPHY_PLL_CTL8_RCAL_EN
                          OR XUSB_PADCTL_UPHY_PLL_CTL8_RCAL_CLK_EN)) s;
          (timed_out, s) = poll env XUSB_PADCTL_UPHY_PLL_S0_CTL8
                             XUSB_PADCTL_UPHY_PLL_CTL8_RCAL_DONE True s;
          err = (if timed_out then - ETIMEDOUT else err);
          s = padctl_update env XUSB_PADCTL_UPHY_PLL_S0_CTL8 (\<lambda>value.
                value AND NOT XUSB_PADCTL_UPHY_PLL_CTL8_RCAL_EN) s;
          (timed_out, s) = poll env XUSB_PADCTL_UPHY_PLL_S0_CTL8
                             XUSB_PADCTL_UPHY_PLL_CTL8_RCAL_DONE False s;
          err = (if timed_out then - ETIMEDOUT else err);
          s = padctl_update env XUSB_PADCTL_UPHY_PLL_S0_CTL8 (\<lambda>value.
                value AND NOT XUSB_PADCTL_UPHY_PLL_CTL8_RCAL_CLK_EN) s;
          s = (if err = - ETIMEDOUT then dev_err ''UPHY SATA PLL calibration timeout'' s else s);
          s = ext_call Sata_pll_hw_control_enable s;
          s = padctl_update env XUSB_PADCTL_UPHY_PLL_S0_CTL1 (\<lambda>value.
                value AND NOT XUSB_PADCTL_UPHY_PLL_CTL1_PWR_OVRD) s;
          s = padctl_update env XUSB_PADCTL_UPHY_PLL_S0_CTL2 (\<lambda>value.
                value AND NOT XUSB_PADCTL_UPHY_PLL_CTL2_CAL_OVRD) s;
          s = padctl_update env XUSB_PADCTL_UPHY_PLL_S0_CTL8 (\<lambda>value.
                value AND NOT XUSB_PADCTL_UPHY_PLL_CTL8_RCAL_OVRD) s;
          s = usleep_range env 10 20 s;
          s = ext_call Sata_pll_hw_sequence_start s
      in (0, s))"

subsection \<open>Reference-counted enable and disable of the pad controller\<close>

definition mutex_lock :: "state \<Rightarrow> state option" where
  "mutex_lock s = (if lock_held s then None else Some (s\<lparr>lock_held := True\<rparr>))"

definition mutex_unlock :: "state \<Rightarrow> state" where
  "mutex_unlock s = s\<lparr>lock_held := False\<rparr>"

definition warn_on :: "state \<Rightarrow> state" where
  "warn_on s = s\<lparr>trace := trace s @ [Warn_on]\<rparr>"

text \<open>
  \<^verbatim>\<open>if (padctl->enable++ > 0) goto out;\<close> increments first. The two \<^verbatim>\<open>return err;\<close> after
  \<open>clk_prepare_enable\<close> leave the function without passing \<open>out:\<close>, so without
  \<open>mutex_unlock\<close>. The results of the two calibration functions are not looked at.
\<close>

definition tegra210_xusb_padctl_enable :: "env \<Rightarrow> state \<Rightarrow> (int \<times> state) option" where
  "tegra210_xusb_padctl_enable env s =
     (case mutex_lock s of
        None \<Rightarrow> None
      | Some s \<Rightarrow> Some
         (let old = enable s;
              s = s\<lparr>enable := enable s + 1\<rparr>
          in if old > 0 then (0, mutex_unlock s)
             else
               (let s = (if plle_hw_sequence_is_enabled env
                         then dev_err ''PLLE was in HW before init!'' s else s);
                    err = clk_prepare_enable env Plle;
                    s = ext_call (Clk_prepare_enable Plle) s
                in if err < 0 then (err, s)
                   else
                     (let (compat, s) = t210b01_compatible env s;
                          err = (if compat = 1 then clk_prepare_enable env Uphy_mgmt_clk else err);
                          s = (if compat = 1 then ext_call (Clk_prepare_enable Uphy_mgmt_clk) s else s)
                      in if compat = 1 \<and> err < 0 then (err, s)
                         else
                           (let s = snd (tegra210_pex_uphy_enable env s);
                                (compat, s) = t210b01_compatible env s;
                                s = (if compat = 0 then snd (tegra210_sata_uphy_enable env s) else s);
                                s = ext_call Plle_hw_sequence_start s;
                                s = padctl_update env XUSB_PADCTL_ELPG_PROGRAM_1 (\<lambda>value.
                                      value AND NOT AUX_MUX_LP0_CLAMP_EN) s;
                                s = usleep_range env 100 200 s;
                                s = padctl_update env XUSB_PADCTL_ELPG_PROGRAM_1 (\<lambda>value.
                                      value AND NOT AUX_MUX_LP0_CLAMP_EN_EARLY) s;
                                s = usleep_range env 100 200 s;
                                s = padctl_update env XUSB_PADCTL_ELPG_PROGRAM_1 (\<lambda>value.
                                      value AND NOT AUX_MUX_LP0_VCORE_DOWN) s
                            in (0, mutex_unlock s))))))"

definition tegra210_xusb_padctl_disable :: "env \<Rightarrow> state \<Rightarrow> (int \<times> state) option" where
  "tegra210_xusb_padctl_disable env s =
     (case mutex_lock s of
        None \<Rightarrow> None
      | Some s \<Rightarrow> Some
         (if enable s = 0 then (0, mutex_unlock (warn_on s))
          else
            (let s = s\<lparr>enable := enable s - 1\<rparr>
             in if enable s > 0 then (0, mutex_unlock s)
                else
                  (let s = padctl_update env XUSB_PADCTL_ELPG_PROGRAM_1 (\<lambda>value.
                             value OR AUX_MUX_LP0_VCORE_DOWN) s;
                       s = usleep_range env 100 200 s;
                       s = padctl_update env XUSB_PADCTL_ELPG_PROGRAM_1 (\<lambda>value.
                             value OR AUX_MUX_LP0_CLAMP_EN_EARLY) s;
                       s = usleep_range env 100 200 s;
                       s = padctl_update env XUSB_PADCTL_ELPG_PROGRAM_1 (\<lambda>value.
                             value OR AUX_MUX_LP0_CLAMP_EN) s
                   in (0, mutex_unlock s)))))"

subsection \<open>USB3 ports: power sequences and the port/lane tables\<close>

text \<open>
  A lane, as the lookups see it: the name of its pad (\<open>lane->pad->soc->name\<close>) and its
  index within the pad.
\<close>

record tegra_xusb_lane =
  soc_name :: string
  lane_index :: u32

text \<open>
  \<open>struct tegra_xusb_usb3_port\<close>: the port's index, the lane it is mapped to, the
  \<open>port\<close> field (the number of the USB2 companion port) and the \<open>internal\<close> flag.
\<close>

record tegra_xusb_usb3_port =
  port_index :: nat
  port_lane :: tegra_xusb_lane
  port :: u32
  internal :: bool

text \<open>Must be called under \<open>padctl->lock\<close>. The debug print is left out.\<close>

definition tegra210_usb3_port_enable :: "env \<Rightarrow> tegra_xusb_usb3_port \<Rightarrow> state \<Rightarrow> int \<times> state" where
  "tegra210_usb3_port_enable env usb3 s =
     (let index = port_index usb3;
          s = padctl_update env XUSB_PADCTL_SS_PORT_MAP (\<lambda>value.
                ((if \<not> internal usb3
                  then value AND NOT (XUSB_PADCTL_SS_PORT_MAP_PORTX_INTERNAL index)
                  else value OR XUSB_PADCTL_SS_PORT_MAP_PORTX_INTERNAL index)
                 AND NOT (XUSB_PADCTL_SS_PORT_MAP_PORTX_MAP_MASK index))
                OR XUSB_PADCTL_SS_PORT_MAP_PORTX_MAP index (port usb3)) s;
          s = padctl_update env (XUSB_PADCTL_UPHY_USB3_PADX_ECTL1 index) (\<lambda>value.
                (value AND NOT (push_bit XUSB_PADCTL_UPHY_USB3_PAD_ECTL1_TX_TERM_CTRL_SHIFT
                                  XUSB_PADCTL_UPHY_USB3_PAD_ECTL1_TX_TERM_CTRL_MASK))
                OR push_bit XUSB_PADCTL_UPHY_USB3_PAD_ECTL1_TX_TERM_CTRL_SHIFT
                     XUSB_PADCTL_UPHY_USB3_PAD_ECTL1_TX_TERM_CTRL_VAL) s;
          s = padctl_update env (XUSB_PADCTL_UPHY_USB3_PADX_ECTL2 index) (\<lambda>value.
                (value AND NOT (push_bit XUSB_PADCTL_UPHY_USB3_PAD_ECTL2_RX_CTLE_SHIFT
                                  XUSB_PADCTL_UPHY_USB3_PAD_ECTL2_RX_CTLE_MASK))
                OR push_bit XUSB_PADCTL_UPHY_USB3_PAD_ECTL2_RX_CTLE_SHIFT
                     XUSB_PADCTL_UPHY_USB3_PAD_ECTL2_RX_CTLE_VAL) s;
          s = padctl_writel XUSB_PADCTL_UPHY_USB3_PAD_ECTL3_RX_DFE_VAL
                (XUSB_PADCTL_UPHY_USB3_PADX_ECTL3 index) s;
          s = padctl_update env (XUSB_PADCTL_UPHY_USB3_PADX_ECTL4 index) (\<lambda>value.
                (value AND NOT (push_bit XUSB_PADCTL_UPHY_USB3_PAD_ECTL4_RX_CDR_CTRL_SHIFT
                                  XUSB_PADCTL_UPHY_USB3_PAD_ECTL4_RX_CDR_CTRL_MASK))
                OR push_bit XUSB_PADCTL_UPHY_USB3_PAD_ECTL4_RX_CDR_CTRL_SHIFT
                     XUSB_PADCTL_UPHY_USB3_PAD_ECTL4_RX_CDR_CTRL_VAL) s;
          s = padctl_writel XUSB_PADCTL_UPHY_USB3_PAD_ECTL6_RX_EQ_CTRL_H_VAL
                (XUSB_PADCTL_UPHY_USB3_PADX_ECTL6 index) s;
          s = padctl_update env XUSB_PADCTL_ELPG_PROGRAM_1 (\<lambda>value.
                value AND NOT (SSPX_ELPG_VCORE_DOWN index)) s;
          s = usleep_range env 100 200 s;
          s = padctl_update env XUSB_PADCTL_ELPG_PROGRAM_1 (\<lambda>value.
                value AND NOT (SSPX_ELPG_CLAMP_EN_EARLY index)) s;
          s = usleep_range env 100 200 s;
          s = padctl_update env XUSB_PADCTL_ELPG_PROGRAM_1 (\<lambda>value.
                value AND NOT (SSPX_ELPG_CLAMP_EN index)) s
      in (0, s))"

text \<open>Must be called under \<open>padctl->lock\<close>; returns \<open>void\<close>. Only \<open>port->index\<close> is used.\<close>

definition tegra210_usb3_port_disable :: "env \<Rightarrow> tegra_xusb_usb3_port \<Rightarrow> state \<Rightarrow> state" where
  "tegra210_usb3_port_disable env usb3 s =
     (let index = port_index usb3;
          s = padctl_update env XUSB_PADCTL_ELPG_PROGRAM_1 (\<lambda>value.
                value OR SSPX_ELPG_CLAMP_EN_EARLY index) s;
          s = usleep_range env 100 200 s;
          s = padctl_update env XUSB_PADCTL_ELPG_PROGRAM_1 (\<lambda>value.
                value OR SSPX_ELPG_CLAMP_EN index) s;
          s = usleep_range env 250 350 s;
          s = padctl_update env XUSB_PADCTL_ELPG_PROGRAM_1 (\<lambda>value.
                value OR SSPX_ELPG_VCORE_DOWN index) s;
          s = padctl_update env XUSB_PADCTL_SS_PORT_MAP (\<lambda>value.
                (value AND NOT (XUSB_PADCTL_SS_PORT_MAP_PORTX_MAP_MASK index))
                OR XUSB_PADCTL_SS_PORT_MAP_PORTX_MAP index 0x7) s
      in s)"

text \<open>
  \<open>struct tegra_xusb_lane_map\<close>: \<open>{ port, type, index }\<close>; a row whose \<open>type\<close> is
  \<open>NULL\<close> ends a table.
\<close>

record tegra_xusb_lane_map =
  map_port :: u32
  map_type :: "string option"
  map_index :: u32

definition tegra210_usb3_map :: "tegra_xusb_lane_map list" where
  "tegra210_usb3_map =
     [\<lparr>map_port = 0, map_type = Some ''pcie'', map_index = 6\<rparr>,
      \<lparr>map_port = 1, map_type = Some ''pcie'', map_index = 5\<rparr>,
      \<lparr>map_port = 2, map_type = Some ''pcie'', map_index = 0\<rparr>,
      \<lparr>map_port = 2, map_type = Some ''pcie'', map_index = 3\<rparr>,
      \<lparr>map_port = 3, map_type = Some ''pcie'', map_index = 4\<rparr>,
      \<lparr>map_port = 3, map_type = Some ''sata'', map_index = 0\<rparr>,
      \<lparr>map_port = 0, map_type = None, map_index = 0\<rparr>]"

definition tegra210b01_usb3_map :: "tegra_xusb_lane_map list" where
  "tegra210b01_usb3_map =
     [\<lparr>map_port = 0, map_type = Some ''pcie'', map_index = 5\<rparr>,
      \<lparr>map_port = 1, map_type = Some ''pcie'', map_index = 4\<rparr>,
      \<lparr>map_port = 2, map_type = Some ''pcie'', map_index = 1\<rparr>,
      \<lparr>map_port = 0, map_type = None, map_index = 0\<rparr>]"

text \<open>
  The reverse lookup. It returns \<open>map->port\<close> of the first row with the lane's index and
  pad name, and \<open>-1\<close> (as \<open>unsigned int\<close>) at the terminating row. The argument
  \<open>function\<close> is not used. A table without a terminating row would be read past its
  end: \<open>None\<close>.
\<close>

fun tegra210_usb3_lane_find_port_index ::
  "tegra_xusb_lane \<Rightarrow> tegra_xusb_lane_map list \<Rightarrow> string \<Rightarrow> u32 option" where
  "tegra210_usb3_lane_find_port_index lane [] function = None"
| "tegra210_usb3_lane_find_port_index lane (m # ms) function =
     (case map_type m of
        None \<Rightarrow> Some (- 1)
      | Some t \<Rightarrow>
          if map_index m = lane_index lane \<and> t = soc_name lane then Some (map_port m)
          else tegra210_usb3_lane_find_port_index lane ms function)"

text \<open>
  Modelled from the spec: the forward lookup \<open>tegra_xusb_port_find_lane\<close> is defined in
  \<open>drivers/phy/tegra/xusb.c\<close>, which is not among the sources; only its two calls in
  \<open>tegra210_usb3_port_map\<close> are. Section 4.3 of the specification: \<open>resolve(port)\<close> is a
  pure lookup against the table of the active SoC revision, a linear scan in which the
  first match wins, and the absence of a match is an error (\<open>None\<close>).
\<close>

fun resolve :: "u32 \<Rightarrow> tegra_xusb_lane_map list \<Rightarrow> tegra_xusb_lane option" where
  "resolve p [] = None"
| "resolve p (m # ms) =
     (case map_type m of
        None \<Rightarrow> None
      | Some t \<Rightarrow>
          if map_port m = p then Some \<lparr>soc_name = t, lane_index = map_index m\<rparr>
          else resolve p ms)"

subsection \<open>OTG: VBUS and ID overrides, and the deferred handler\<close>

definition schedule_work :: "state \<Rightarrow> state" where
  "schedule_work s = s\<lparr>trace := trace s @ [Schedule_work]\<rparr>"

text \<open>The argument \<open>set\<close> of both functions is \<open>set_it\<close> here (\<open>set\<close> is a constant of HOL).\<close>

definition tegra210_xusb_padctl_vbus_override :: "env \<Rightarrow> bool \<Rightarrow> state \<Rightarrow> int \<times> state" where
  "tegra210_xusb_padctl_vbus_override env set_it s =
     (let reg = padctl_readl env s XUSB_PADCTL_USB2_VBUS_ID;
          reg = (if set_it
                 then ((reg OR VBUS_OVERRIDE_VBUS_ON) AND NOT (ID_OVERRIDE (NOT 0)))
                      OR ID_OVERRIDE_FLOATING
                 else reg AND NOT VBUS_OVERRIDE_VBUS_ON);
          s = padctl_writel reg XUSB_PADCTL_USB2_VBUS_ID s;
          s = schedule_work s
      in (0, s))"

definition tegra210_xusb_padctl_id_override :: "env \<Rightarrow> bool \<Rightarrow> state \<Rightarrow> int \<times> state" where
  "tegra210_xusb_padctl_id_override env set_it s =
     (let reg = padctl_readl env s XUSB_PADCTL_USB2_VBUS_ID;
          (reg, s) =
            (if set_it then
               (let (reg, s) =
                      (if reg AND VBUS_OVERRIDE_VBUS_ON \<noteq> 0 then
                         (let reg = reg AND NOT VBUS_OVERRIDE_VBUS_ON;
                              s = padctl_writel reg XUSB_PADCTL_USB2_VBUS_ID s;
                              s = usleep_range env 1000 2000 s;
                              reg = padctl_readl env s XUSB_PADCTL_USB2_VBUS_ID
                          in (reg, s))
                       else (reg, s))
                in ((reg AND NOT (ID_OVERRIDE (NOT 0))) OR ID_OVERRIDE_GROUNDED, s))
             else ((reg AND NOT (ID_OVERRIDE (NOT 0))) OR ID_OVERRIDE_FLOATING, s));
          s = padctl_writel reg XUSB_PADCTL_USB2_VBUS_ID s;
          s = schedule_work s
      in (0, s))"

text \<open>
  Bus power on: through the over-current pin control when the board has one for the
  port (\<open>tegra210_enable_vbus_oc\<close> is an empty stub), else through the regulator, which
  is enabled only if \<open>regulator_is_enabled\<close> says it is off.
\<close>

definition tegra210_xusb_padctl_vbus_power_on :: "env \<Rightarrow> nat \<Rightarrow> state \<Rightarrow> (int \<times> state) option" where
  "tegra210_xusb_padctl_vbus_power_on env index s =
     (case find_usb2_port env index of
        None \<Rightarrow> Some (- ENODEV, dev_err ''no port found for USB2 lane'' s)
      | Some p \<Rightarrow>
          if \<not> vbus_supply p then Some (- ENODEV, dev_err ''no vbus-supply found'' s)
          else
            (case mutex_lock s of
               None \<Rightarrow> None
             | Some s \<Rightarrow> Some
                (let (rc, s) =
                       (if oc_pinctrl env \<and> oc_pin p \<ge> 0 then
                          (select_vbus_en_state env (oc_pin p) True,
                           ext_call (Select_vbus_en_state (oc_pin p) True) s)
                        else
                          (let status = regulator_is_enabled env (clock s) index
                           in if status = 0 then
                                (let rc = regulator_enable env index;
                                     s = ext_call (Regulator_enable index) s;
                                     s = (if rc \<noteq> 0 then dev_err ''enable vbus failed'' s else s)
                                 in (rc, s))
                              else (0, s)))
                 in (rc, mutex_unlock s))))"

definition tegra210_xusb_padctl_vbus_power_off :: "env \<Rightarrow> nat \<Rightarrow> state \<Rightarrow> (int \<times> state) option" where
  "tegra210_xusb_padctl_vbus_power_off env index s =
     (case find_usb2_port env index of
        None \<Rightarrow> Some (- ENODEV, dev_err ''no port found for USB2 lane'' s)
      | Some p \<Rightarrow>
          if otg_vbus_alwayson env then Some (- EINVAL, s)
          else if \<not> vbus_supply p then Some (- ENODEV, dev_err ''no vbus-supply found'' s)
          else
            (case mutex_lock s of
               None \<Rightarrow> None
             | Some s \<Rightarrow> Some
                (let (rc, s) =
                       (if oc_pinctrl env \<and> oc_pin p \<ge> 0 then
                          (select_vbus_en_state env (oc_pin p) False,
                           ext_call (Select_vbus_en_state (oc_pin p) False) s)
                        else
                          (let status = regulator_is_enabled env (clock s) index
                           in if status \<noteq> 0 then
                                (let rc = regulator_disable env index;
                                     s = ext_call (Regulator_disable index) s;
                                     s = (if rc \<noteq> 0 then dev_err ''disable vbus failed'' s else s)
                                 in (rc, s))
                              else (0, s)))
                 in (rc, mutex_unlock s))))"

text \<open>The work item that \<open>schedule_work\<close> queues ends up here.\<close>

definition tegra210_xusb_padctl_otg_vbus_handle :: "env \<Rightarrow> nat \<Rightarrow> state \<Rightarrow> state option" where
  "tegra210_xusb_padctl_otg_vbus_handle env index s =
     (let reg = padctl_readl env s XUSB_PADCTL_USB2_VBUS_ID
      in if reg AND ID_OVERRIDE (NOT 0) = ID_OVERRIDE_GROUNDED then
           (if \<not> otg_vbus_on s then
              (case tegra210_xusb_padctl_vbus_power_on env index s of
                 None \<Rightarrow> None
               | Some (err, s) \<Rightarrow> Some (if err = 0 then s\<lparr>otg_vbus_on := True\<rparr> else s))
            else Some s)
         else if reg AND ID_OVERRIDE (NOT 0) = ID_OVERRIDE_FLOATING then
           (if otg_vbus_on s then
              (case tegra210_xusb_padctl_vbus_power_off env index s of
                 None \<Rightarrow> None
               | Some (err, s) \<Rightarrow> Some (if err = 0 then s\<lparr>otg_vbus_on := False\<rparr> else s))
            else Some s)
         else Some s)"

section \<open>Observations and examples\<close>

text \<open>
  What the properties below look at. \<open>steps\<close> keeps, of a trace, the register writes
  (by offset) and the calls into other subsystems, in order; delays and log messages
  are dropped, so the steps of a run do not depend on how often a poll sleeps.
  \<open>logged m s\<close>: the message \<open>m\<close> was passed to \<open>dev_err\<close>.
\<close>

datatype step = W nat | E extcall

fun step_of :: "event \<Rightarrow> step list" where
  "step_of (Wr offset v) = [W offset]"
| "step_of (Ext c) = [E c]"
| "step_of _ = []"

definition steps :: "event list \<Rightarrow> step list" where
  "steps evs = concat (map step_of evs)"

definition logged :: "string \<Rightarrow> state \<Rightarrow> bool" where
  "logged m s = (Dev_err m \<in> set (trace s))"

text \<open>
  The steps of a calibration run, in the order of section 4.1 of the specification:
  for the PCIe PLL (the argument is the result of \<open>t210b01_compatible\<close>, which
  selects how the trims are programmed) and for the SATA PLL (which has no write of
  the reference selector in \<open>PLL_S0_CTL4\<close>).
\<close>

definition pex_uphy_steps :: "int \<Rightarrow> step list" where
  "pex_uphy_steps c =
     E (Reset_control_deassert Pcie_rst) #
     (if c = 1
      then [W XUSB_PADCTL_UPHY_PLL_S0_CTL10, W XUSB_PADCTL_UPHY_PLL_S0_CTL10,
            W XUSB_PADCTL_UPHY_PLL_S0_CTL10, W XUSB_PADCTL_UPHY_PLL_S0_CTL10]
      else [W XUSB_PADCTL_UPHY_PLL_P0_CTL2, W XUSB_PADCTL_UPHY_PLL_P0_CTL5]) @
     [W XUSB_PADCTL_UPHY_PLL_P0_CTL1, W XUSB_PADCTL_UPHY_PLL_P0_CTL2,
      W XUSB_PADCTL_UPHY_PLL_P0_CTL8,
      W XUSB_PADCTL_UPHY_PLL_P0_CTL4, W XUSB_PADCTL_UPHY_PLL_P0_CTL1,
      W XUSB_PADCTL_UPHY_PLL_P0_CTL1, W XUSB_PADCTL_UPHY_PLL_P0_CTL1,
      W XUSB_PADCTL_UPHY_PLL_P0_CTL4, W XUSB_PADCTL_UPHY_PLL_P0_CTL2,
      W XUSB_PADCTL_UPHY_PLL_P0_CTL2,
      W XUSB_PADCTL_UPHY_PLL_P0_CTL1,
      W XUSB_PADCTL_UPHY_PLL_P0_CTL8, W XUSB_PADCTL_UPHY_PLL_P0_CTL8,
      W XUSB_PADCTL_UPHY_PLL_P0_CTL8,
      E Xusb_pll_hw_control_enable,
      W XUSB_PADCTL_UPHY_PLL_P0_CTL1, W XUSB_PADCTL_UPHY_PLL_P0_CTL2,
      W XUSB_PADCTL_UPHY_PLL_P0_CTL8,
      E Xusb_pll_hw_sequence_start]"

definition sata_uphy_steps :: "step list" where
  "sata_uphy_steps =
     [E (Reset_control_deassert Sata_rst),
      W XUSB_PADCTL_UPHY_PLL_S0_CTL2, W XUSB_PADCTL_UPHY_PLL_S0_CTL5,
      W XUSB_PADCTL_UPHY_PLL_S0_CTL1, W XUSB_PADCTL_UPHY_PLL_S0_CTL2,
      W XUSB_PADCTL_UPHY_PLL_S0_CTL8,
      W XUSB_PADCTL_UPHY_PLL_S0_CTL1,
      W XUSB_PADCTL_UPHY_PLL_S0_CTL1, W XUSB_PADCTL_UPHY_PLL_S0_CTL1,
      W XUSB_PADCTL_UPHY_PLL_S0_CTL4, W XUSB_PADCTL_UPHY_PLL_S0_CTL2,
      W XUSB_PADCTL_UPHY_PLL_S0_CTL2,
      W XUSB_PADCTL_UPHY_PLL_S0_CTL1,
      W XUSB_PADCTL_UPHY_PLL_S0_CTL8, W XUSB_PADCTL_UPHY_PLL_S0_CTL8,
      W XUSB_PADCTL_UPHY_PLL_S0_CTL8,
      E Sata_pll_hw_control_enable,
      W XUSB_PADCTL_UPHY_PLL_S0_CTL1, W XUSB_PADCTL_UPHY_PLL_S0_CTL2,
      W XUSB_PADCTL_UPHY_PLL_S0_CTL8,
      E Sata_pll_hw_sequence_start]"

text \<open>
  Examples for the closed instances below: a baseline Tegra210 whose registers read
  back what was written and where every call into another subsystem succeeds; a state
  with all registers zero, the count zero and the lock free; and the same hardware with
  registers that always read zero, so that no status bit ever sets.
\<close>

definition example_env :: env where
  "example_env =
     \<lparr>hw_read = (\<lambda>t r offset. r offset),
      oversleep = (\<lambda>t. 0),
      compatible = Some ''nvidia,tegra210-xusb-padctl'',
      sata_used_by_xusb = False,
      reset_control_deassert = (\<lambda>r. 0),
      clk_prepare_enable = (\<lambda>c. 0),
      plle_hw_sequence_is_enabled = False,
      find_usb2_port = (\<lambda>i. Some \<lparr>vbus_supply = True, oc_pin = - 1\<rparr>),
      oc_pinctrl = False,
      otg_vbus_alwayson = False,
      regulator_is_enabled = (\<lambda>t i. 0),
      regulator_enable = (\<lambda>i. 0),
      regulator_disable = (\<lambda>i. 0),
      select_vbus_en_state = (\<lambda>pin on. 0)\<rparr>"

definition example_state :: state where
  "example_state =
     \<lparr>regs = (\<lambda>offset. 0), clock = 0, trace = [], enable = 0, lock_held = False,
      otg_vbus_on = False\<rparr>"

definition dead_hw_env :: env where
  "dead_hw_env = example_env\<lparr>hw_read := (\<lambda>t r offset. 0)\<rparr>"

text \<open>The clock framework refusing every clock.\<close>

definition clk_fails_env :: env where
  "clk_fails_env = example_env\<lparr>clk_prepare_enable := (\<lambda>c. - EINVAL)\<rparr>"

text \<open>
  The five polls of each calibration function, in program order: the register, the
  status bit, and whether the loop waits for the bit to be set or to be clear.
\<close>

definition pex_polls :: "(nat \<times> u32 \<times> bool) list" where
  "pex_polls =
     [(XUSB_PADCTL_UPHY_PLL_P0_CTL2, XUSB_PADCTL_UPHY_PLL_CTL2_CAL_DONE, True),
      (XUSB_PADCTL_UPHY_PLL_P0_CTL2, XUSB_PADCTL_UPHY_PLL_CTL2_CAL_DONE, False),
      (XUSB_PADCTL_UPHY_PLL_P0_CTL1, XUSB_PADCTL_UPHY_PLL_CTL1_LOCKDET_STATUS, True),
      (XUSB_PADCTL_UPHY_PLL_P0_CTL8, XUSB_PADCTL_UPHY_PLL_CTL8_RCAL_DONE, True),
      (XUSB_PADCTL_UPHY_PLL_P0_CTL8, XUSB_PADCTL_UPHY_PLL_CTL8_RCAL_DONE, False)]"

definition sata_polls :: "(nat \<times> u32 \<times> bool) list" where
  "sata_polls =
     [(XUSB_PADCTL_UPHY_PLL_S0_CTL2, XUSB_PADCTL_UPHY_PLL_CTL2_CAL_DONE, True),
      (XUSB_PADCTL_UPHY_PLL_S0_CTL2, XUSB_PADCTL_UPHY_PLL_CTL2_CAL_DONE, False),
      (XUSB_PADCTL_UPHY_PLL_S0_CTL1, XUSB_PADCTL_UPHY_PLL_CTL1_LOCKDET_STATUS, True),
      (XUSB_PADCTL_UPHY_PLL_S0_CTL8, XUSB_PADCTL_UPHY_PLL_CTL8_RCAL_DONE, True),
      (XUSB_PADCTL_UPHY_PLL_S0_CTL8, XUSB_PADCTL_UPHY_PLL_CTL8_RCAL_DONE, False)]"

text \<open>The reset controller failing every deassert.\<close>

definition reset_fails_env :: env where
  "reset_fails_env = example_env\<lparr>reset_control_deassert := (\<lambda>r. - EINVAL)\<rparr>"

text \<open>
  The example of the specification: USB3 port 0 on PCIe lane 6, with USB2 port 1 as its
  companion; and a state in which the three clamp bits of port 0 are set and its field
  of the port map reads ``unmapped''.
\<close>

definition usb3_port_0 :: tegra_xusb_usb3_port where
  "usb3_port_0 =
     \<lparr>port_index = 0, port_lane = \<lparr>soc_name = ''pcie'', lane_index = 6\<rparr>, port = 1,
      internal = False\<rparr>"

definition clamped_state :: state where
  "clamped_state =
     example_state\<lparr>regs := (\<lambda>offset. 0)(XUSB_PADCTL_ELPG_PROGRAM_1 := 0x7,
                                         XUSB_PADCTL_SS_PORT_MAP := 0x7)\<rparr>"

text \<open>
  The events that switch bus power on: enabling the VBUS regulator, and selecting the
  ``enabled'' state of the over-current pin. And runs of the OTG entry points in any
  order: the two overrides and the handler of the deferred work (\<open>None\<close> when the
  handler blocks on the lock).
\<close>

fun switches_vbus_on :: "event \<Rightarrow> bool" where
  "switches_vbus_on (Ext (Regulator_enable i)) = True"
| "switches_vbus_on (Ext (Select_vbus_en_state pin on)) = on"
| "switches_vbus_on _ = False"

datatype otg_op = Vbus_override bool | Id_override bool | Otg_vbus_handle nat

fun otg_step :: "env \<Rightarrow> otg_op \<Rightarrow> state \<Rightarrow> state option" where
  "otg_step env (Vbus_override b) s = Some (snd (tegra210_xusb_padctl_vbus_override env b s))"
| "otg_step env (Id_override b) s = Some (snd (tegra210_xusb_padctl_id_override env b s))"
| "otg_step env (Otg_vbus_handle i) s = tegra210_xusb_padctl_otg_vbus_handle env i s"

fun otg_run :: "env \<Rightarrow> otg_op list \<Rightarrow> state \<Rightarrow> state option" where
  "otg_run env [] s = Some s"
| "otg_run env (c # cs) s =
     (case otg_step env c s of None \<Rightarrow> None | Some s' \<Rightarrow> otg_run env cs s')"

section \<open>Properties\<close>

subsection \<open>Bit fields\<close>

lemma field_set: "((x AND NOT m) OR f) AND m = f AND (m::'a::len word)"
  by (rule bit_word_eqI) (auto simp: bit_simps)

lemma bit_cleared: "(x AND NOT b) AND b = (0::'a::len word)"
  by (rule bit_word_eqI) (auto simp: bit_simps)

lemma bit_was_set: "(x OR b) AND b = (b::'a::len word)"
  by (rule bit_word_eqI) (auto simp: bit_simps)

lemma disjoint_bits: "a AND m = (0::'a::len word) \<Longrightarrow> bit a n \<Longrightarrow> \<not> bit m n"
  by (metis bit_and_iff bit_0_eq bot_apply bot_bool_def)

lemma clear_other: "a AND m = 0 \<Longrightarrow> (x AND NOT a) AND m = x AND (m::'a::len word)"
  by (rule bit_word_eqI) (auto simp: bit_simps dest: disjoint_bits)

lemma set_other: "a AND m = 0 \<Longrightarrow> (x OR a) AND m = x AND (m::'a::len word)"
  by (rule bit_word_eqI) (auto simp: bit_simps dest: disjoint_bits)

subsection \<open>What each primitive does to the state\<close>

lemma steps_simps [simp]:
  "steps [] = []" "steps (e # evs) = step_of e @ steps evs" "steps (a @ b) = steps a @ steps b"
  by (simp_all add: steps_def)

lemma padctl_writel_simps [simp]:
  "trace (padctl_writel v offset s) = trace s @ [Wr offset v]"
  "regs (padctl_writel v offset s) = (regs s)(offset := v)"
  "clock (padctl_writel v offset s) = clock s"
  "enable (padctl_writel v offset s) = enable s"
  "lock_held (padctl_writel v offset s) = lock_held s"
  "otg_vbus_on (padctl_writel v offset s) = otg_vbus_on s"
  by (simp_all add: padctl_writel_def)

lemma padctl_update_simps [simp]:
  "trace (padctl_update env offset f s) = trace s @ [Wr offset (f (padctl_readl env s offset))]"
  "regs (padctl_update env offset f s) = (regs s)(offset := f (padctl_readl env s offset))"
  "clock (padctl_update env offset f s) = clock s"
  "enable (padctl_update env offset f s) = enable s"
  "lock_held (padctl_update env offset f s) = lock_held s"
  "otg_vbus_on (padctl_update env offset f s) = otg_vbus_on s"
  by (simp_all add: padctl_update_def)

lemma usleep_range_simps [simp]:
  "trace (usleep_range env lo hi s) = trace s @ [Usleep lo hi]"
  "regs (usleep_range env lo hi s) = regs s"
  "enable (usleep_range env lo hi s) = enable s"
  "lock_held (usleep_range env lo hi s) = lock_held s"
  "otg_vbus_on (usleep_range env lo hi s) = otg_vbus_on s"
  by (simp_all add: usleep_range_def)

lemma ext_call_simps [simp]:
  "trace (ext_call c s) = trace s @ [Ext c]"
  "regs (ext_call c s) = regs s"
  "clock (ext_call c s) = clock s"
  "enable (ext_call c s) = enable s"
  "lock_held (ext_call c s) = lock_held s"
  "otg_vbus_on (ext_call c s) = otg_vbus_on s"
  by (simp_all add: ext_call_def)

lemma dev_err_simps [simp]:
  "trace (dev_err m s) = trace s @ [Dev_err m]"
  "regs (dev_err m s) = regs s"
  "clock (dev_err m s) = clock s"
  "enable (dev_err m s) = enable s"
  "lock_held (dev_err m s) = lock_held s"
  "otg_vbus_on (dev_err m s) = otg_vbus_on s"
  by (simp_all add: dev_err_def)

lemma poll_loop_frame:
  "regs (poll_loop env offset flag want timeout s) = regs s \<and>
   enable (poll_loop env offset flag want timeout s) = enable s \<and>
   lock_held (poll_loop env offset flag want timeout s) = lock_held s \<and>
   otg_vbus_on (poll_loop env offset flag want timeout s) = otg_vbus_on s \<and>
   steps (trace (poll_loop env offset flag want timeout s)) = steps (trace s) \<and>
   logged m (poll_loop env offset flag want timeout s) = logged m s"
proof (induction env offset flag want timeout s rule: poll_loop.induct)
  case (1 env offset flag want timeout s)
  show ?case
  proof (cases "time_before (jiffies s) timeout \<and>
                (padctl_readl env s offset AND flag \<noteq> 0) \<noteq> want")
    case True
    then have unf: "poll_loop env offset flag want timeout s =
        poll_loop env offset flag want timeout (usleep_range env 10 20 s)"
      by (subst poll_loop.simps) (simp add: Let_def)
    from True 1 show ?thesis
      unfolding unf by (simp add: Let_def logged_def)
  next
    case False
    then have "poll_loop env offset flag want timeout s = s"
      by (subst poll_loop.simps) (auto simp: Let_def)
    then show ?thesis by simp
  qed
qed

lemma poll_simps [simp]:
  "regs (snd (poll env offset flag want s)) = regs s"
  "enable (snd (poll env offset flag want s)) = enable s"
  "lock_held (snd (poll env offset flag want s)) = lock_held s"
  "otg_vbus_on (snd (poll env offset flag want s)) = otg_vbus_on s"
  "steps (trace (snd (poll env offset flag want s))) = steps (trace s)"
  "logged m (snd (poll env offset flag want s)) = logged m s"
  by (simp_all add: poll_def Let_def poll_loop_frame)

lemma logged_simps [simp]:
  "logged m (padctl_writel v offset s) = logged m s"
  "logged m (padctl_update env offset f s) = logged m s"
  "logged m (usleep_range env lo hi s) = logged m s"
  "logged m (ext_call c s) = logged m s"
  "logged m (dev_err m' s) = (m = m' \<or> logged m s)"
  "logged m (if b then dev_err m' s else s) = (b \<and> m = m' \<or> logged m s)"
  by (auto simp: logged_def)

lemma t210b01_compatible_simps [simp]:
  "fst (t210b01_compatible env s) = t210b01_compatible_ret env"
  "regs (snd (t210b01_compatible env s)) = regs s"
  "enable (snd (t210b01_compatible env s)) = enable s"
  "lock_held (snd (t210b01_compatible env s)) = lock_held s"
  "otg_vbus_on (snd (t210b01_compatible env s)) = otg_vbus_on s"
  "steps (trace (snd (t210b01_compatible env s))) = steps (trace s)"
  "logged m (snd (t210b01_compatible env s)) =
     (compatible env = None \<and> m = ''Failed to get compatible property'' \<or> logged m s)"
  by (auto simp: t210b01_compatible_def t210b01_compatible_ret_def split: option.splits)

lemma if_dev_err_simps [simp]:
  "regs (if c then dev_err m s else s) = regs s"
  "enable (if c then dev_err m s else s) = enable s"
  "lock_held (if c then dev_err m s else s) = lock_held s"
  "otg_vbus_on (if c then dev_err m s else s) = otg_vbus_on s"
  "steps (trace (if c then dev_err m s else s)) = steps (trace s)"
  by simp_all

subsection \<open>VBUS override (C10)\<close>

lemma schedule_work_simps [simp]:
  "trace (schedule_work s) = trace s @ [Schedule_work]"
  "regs (schedule_work s) = regs s"
  "clock (schedule_work s) = clock s"
  "enable (schedule_work s) = enable s"
  "lock_held (schedule_work s) = lock_held s"
  "otg_vbus_on (schedule_work s) = otg_vbus_on s"
  by (simp_all add: schedule_work_def)

lemma vbus_on_field:
  "(((r OR VBUS_OVERRIDE_VBUS_ON) AND NOT (ID_OVERRIDE (NOT 0))) OR ID_OVERRIDE_FLOATING)
     AND VBUS_OVERRIDE_VBUS_ON = VBUS_OVERRIDE_VBUS_ON"
proof -
  have "(((r OR VBUS_OVERRIDE_VBUS_ON) AND NOT (ID_OVERRIDE (NOT 0))) OR ID_OVERRIDE_FLOATING)
          AND VBUS_OVERRIDE_VBUS_ON
        = ((r OR VBUS_OVERRIDE_VBUS_ON) AND NOT (ID_OVERRIDE (NOT 0))) AND VBUS_OVERRIDE_VBUS_ON"
    by (rule set_other) simp
  also have "\<dots> = (r OR VBUS_OVERRIDE_VBUS_ON) AND VBUS_OVERRIDE_VBUS_ON"
    by (rule clear_other) simp
  also have "\<dots> = VBUS_OVERRIDE_VBUS_ON"
    by (rule bit_was_set)
  finally show ?thesis .
qed

lemma id_field_floating:
  "(((r OR VBUS_OVERRIDE_VBUS_ON) AND NOT (ID_OVERRIDE (NOT 0))) OR ID_OVERRIDE_FLOATING)
     AND ID_OVERRIDE (NOT 0) = ID_OVERRIDE_FLOATING"
  by (subst field_set) simp

lemma other_fields_kept:
  "(((r OR VBUS_OVERRIDE_VBUS_ON) AND NOT (ID_OVERRIDE (NOT 0))) OR ID_OVERRIDE_FLOATING)
     AND NOT (VBUS_OVERRIDE_VBUS_ON OR ID_OVERRIDE (NOT 0))
   = r AND NOT (VBUS_OVERRIDE_VBUS_ON OR ID_OVERRIDE (NOT 0))"
proof -
  have "(((r OR VBUS_OVERRIDE_VBUS_ON) AND NOT (ID_OVERRIDE (NOT 0))) OR ID_OVERRIDE_FLOATING)
          AND NOT (VBUS_OVERRIDE_VBUS_ON OR ID_OVERRIDE (NOT 0))
        = ((r OR VBUS_OVERRIDE_VBUS_ON) AND NOT (ID_OVERRIDE (NOT 0)))
          AND NOT (VBUS_OVERRIDE_VBUS_ON OR ID_OVERRIDE (NOT 0))"
    by (rule set_other) simp
  also have "\<dots> = r AND NOT (VBUS_OVERRIDE_VBUS_ON OR ID_OVERRIDE (NOT 0))"
    by (rule bit_word_eqI) (auto simp: bit_simps simp del: push_bit_of_1)
  finally show ?thesis .
qed

lemma id_field_kept:
  "(r AND NOT VBUS_OVERRIDE_VBUS_ON) AND ID_OVERRIDE (NOT 0) = r AND ID_OVERRIDE (NOT 0)"
  by (rule clear_other) simp

text \<open>
  C10. \<open>vbus_override(set = true)\<close> does not change the VBUS-on bit alone: the one
  value it writes to the VBUS/ID register has the VBUS-on bit set and the ID-override
  field equal to ``floating'', whatever the field was before, and every other bit as
  read. \<open>vbus_override(set = false)\<close> writes the value read with only the VBUS-on bit
  cleared, so the ID-override field stays as it was. Both make exactly one register
  write and then schedule the work item.
\<close>

theorem vbus_override_frame:
  "regs (snd (tegra210_xusb_padctl_vbus_override env True s)) XUSB_PADCTL_USB2_VBUS_ID
     AND VBUS_OVERRIDE_VBUS_ON = VBUS_OVERRIDE_VBUS_ON \<and>
   regs (snd (tegra210_xusb_padctl_vbus_override env True s)) XUSB_PADCTL_USB2_VBUS_ID
     AND ID_OVERRIDE (NOT 0) = ID_OVERRIDE_FLOATING \<and>
   regs (snd (tegra210_xusb_padctl_vbus_override env True s)) XUSB_PADCTL_USB2_VBUS_ID
     AND NOT (VBUS_OVERRIDE_VBUS_ON OR ID_OVERRIDE (NOT 0))
     = padctl_readl env s XUSB_PADCTL_USB2_VBUS_ID
       AND NOT (VBUS_OVERRIDE_VBUS_ON OR ID_OVERRIDE (NOT 0)) \<and>
   trace (snd (tegra210_xusb_padctl_vbus_override env True s))
     = trace s @ [Wr XUSB_PADCTL_USB2_VBUS_ID
                    (regs (snd (tegra210_xusb_padctl_vbus_override env True s))
                       XUSB_PADCTL_USB2_VBUS_ID),
                  Schedule_work] \<and>
   regs (snd (tegra210_xusb_padctl_vbus_override env False s)) XUSB_PADCTL_USB2_VBUS_ID
     = padctl_readl env s XUSB_PADCTL_USB2_VBUS_ID AND NOT VBUS_OVERRIDE_VBUS_ON \<and>
   regs (snd (tegra210_xusb_padctl_vbus_override env False s)) XUSB_PADCTL_USB2_VBUS_ID
     AND ID_OVERRIDE (NOT 0)
     = padctl_readl env s XUSB_PADCTL_USB2_VBUS_ID AND ID_OVERRIDE (NOT 0) \<and>
   trace (snd (tegra210_xusb_padctl_vbus_override env False s))
     = trace s @ [Wr XUSB_PADCTL_USB2_VBUS_ID
                    (regs (snd (tegra210_xusb_padctl_vbus_override env False s))
                       XUSB_PADCTL_USB2_VBUS_ID),
                  Schedule_work]"
proof -
  have on: "regs (snd (tegra210_xusb_padctl_vbus_override env True s)) XUSB_PADCTL_USB2_VBUS_ID
      = ((padctl_readl env s XUSB_PADCTL_USB2_VBUS_ID OR VBUS_OVERRIDE_VBUS_ON)
          AND NOT (ID_OVERRIDE (NOT 0))) OR ID_OVERRIDE_FLOATING"
    unfolding tegra210_xusb_padctl_vbus_override_def Let_def by simp
  have off: "regs (snd (tegra210_xusb_padctl_vbus_override env False s)) XUSB_PADCTL_USB2_VBUS_ID
      = padctl_readl env s XUSB_PADCTL_USB2_VBUS_ID AND NOT VBUS_OVERRIDE_VBUS_ON"
    unfolding tegra210_xusb_padctl_vbus_override_def Let_def by simp
  have tr: "trace (snd (tegra210_xusb_padctl_vbus_override env b s))
     = trace s @ [Wr XUSB_PADCTL_USB2_VBUS_ID
                    (regs (snd (tegra210_xusb_padctl_vbus_override env b s))
                       XUSB_PADCTL_USB2_VBUS_ID),
                  Schedule_work]" for b
    unfolding tegra210_xusb_padctl_vbus_override_def Let_def by simp
  show ?thesis
    unfolding on off
    by (intro conjI vbus_on_field id_field_floating other_fields_kept id_field_kept refl
          tr [of True, unfolded on] tr [of False, unfolded off])
qed

text \<open>
  An instance: with the register reading zero (ID grounded, VBUS off), setting the VBUS
  override leaves \<open>0x204000\<close> in it, that is VBUS on and ID floating.
\<close>

theorem vbus_override_frame_witness:
  "padctl_readl example_env example_state XUSB_PADCTL_USB2_VBUS_ID AND ID_OVERRIDE (NOT 0)
     = ID_OVERRIDE_GROUNDED \<and>
   regs (snd (tegra210_xusb_padctl_vbus_override example_env True example_state))
     XUSB_PADCTL_USB2_VBUS_ID AND ID_OVERRIDE (NOT 0) = ID_OVERRIDE_FLOATING \<and>
   regs (snd (tegra210_xusb_padctl_vbus_override example_env True example_state))
     XUSB_PADCTL_USB2_VBUS_ID = 0x204000 \<and>
   regs (snd (tegra210_xusb_padctl_vbus_override example_env False example_state))
     XUSB_PADCTL_USB2_VBUS_ID = 0"
  using vbus_override_frame [of example_env example_state]
  by (simp add: tegra210_xusb_padctl_vbus_override_def padctl_readl_def example_env_def
        example_state_def)

subsection \<open>The calibration sequences\<close>

lemma pex_steps:
  "steps (trace (snd (tegra210_pex_uphy_enable env s))) =
     steps (trace s) @ pex_uphy_steps (t210b01_compatible_ret env)"
  by (simp add: tegra210_pex_uphy_enable_def Let_def split_beta usb3_pll_g1_init_data_def
        pex_uphy_steps_def)

lemma sata_steps:
  "steps (trace (snd (tegra210_sata_uphy_enable env s))) = steps (trace s) @ sata_uphy_steps"
  by (simp add: tegra210_sata_uphy_enable_def Let_def split_beta sata_uphy_steps_def)

lemma pex_frame [simp]:
  "enable (snd (tegra210_pex_uphy_enable env s)) = enable s"
  "lock_held (snd (tegra210_pex_uphy_enable env s)) = lock_held s"
  "otg_vbus_on (snd (tegra210_pex_uphy_enable env s)) = otg_vbus_on s"
  "fst (tegra210_pex_uphy_enable env s) = 0"
  by (simp_all add: tegra210_pex_uphy_enable_def Let_def split_beta usb3_pll_g1_init_data_def)

lemma sata_frame [simp]:
  "enable (snd (tegra210_sata_uphy_enable env s)) = enable s"
  "lock_held (snd (tegra210_sata_uphy_enable env s)) = lock_held s"
  "otg_vbus_on (snd (tegra210_sata_uphy_enable env s)) = otg_vbus_on s"
  "fst (tegra210_sata_uphy_enable env s) = 0"
  by (simp_all add: tegra210_sata_uphy_enable_def Let_def split_beta)

subsection \<open>Enable and disable (C2, C5, C8)\<close>

lemma mutex_simps [simp]:
  "trace (mutex_unlock s) = trace s"
  "regs (mutex_unlock s) = regs s"
  "enable (mutex_unlock s) = enable s"
  "lock_held (mutex_unlock s) = False"
  "\<not> lock_held s \<Longrightarrow> mutex_lock s = Some (s\<lparr>lock_held := True\<rparr>)"
  "lock_held s \<Longrightarrow> mutex_lock s = None"
  by (simp_all add: mutex_unlock_def mutex_lock_def)

lemma if_state_simps [simp]:
  "enable (if b then (x::state) else y) = (if b then enable x else enable y)"
  "lock_held (if b then (x::state) else y) = (if b then lock_held x else lock_held y)"
  "steps (trace (if b then (x::state) else y)) = (if b then steps (trace x) else steps (trace y))"
  by simp_all

lemma relock: "\<not> lock_held s \<Longrightarrow> mutex_unlock (s\<lparr>lock_held := True, enable := n\<rparr>) = s\<lparr>enable := n\<rparr>"
  by (cases s) (simp add: mutex_unlock_def)

lemma enable_nested:
  assumes "enable s \<noteq> 0" and "\<not> lock_held s"
  shows "tegra210_xusb_padctl_enable env s = Some (0, s\<lparr>enable := enable s + 1\<rparr>)"
  using assms
  by (simp add: tegra210_xusb_padctl_enable_def Let_def word_neq_0_conv relock
        split del: if_split)

lemma disable_nested:
  assumes "enable s \<noteq> 0" and "enable s \<noteq> 1" and "\<not> lock_held s"
  shows "tegra210_xusb_padctl_disable env s = Some (0, s\<lparr>enable := enable s - 1\<rparr>)"
  using assms
  by (simp add: tegra210_xusb_padctl_disable_def Let_def word_neq_0_conv [symmetric] relock
        split del: if_split)

lemma disable_last:
  assumes "enable s = 1" and "\<not> lock_held s"
  shows "tegra210_xusb_padctl_disable env s = Some (0, mutex_unlock
           (padctl_update env XUSB_PADCTL_ELPG_PROGRAM_1 (\<lambda>value. value OR AUX_MUX_LP0_CLAMP_EN)
             (usleep_range env 100 200
               (padctl_update env XUSB_PADCTL_ELPG_PROGRAM_1
                  (\<lambda>value. value OR AUX_MUX_LP0_CLAMP_EN_EARLY)
                 (usleep_range env 100 200
                   (padctl_update env XUSB_PADCTL_ELPG_PROGRAM_1
                      (\<lambda>value. value OR AUX_MUX_LP0_VCORE_DOWN)
                     (s\<lparr>lock_held := True, enable := 0\<rparr>)))))))"
  using assms
  by (simp add: tegra210_xusb_padctl_disable_def Let_def split del: if_split)

lemma disable_zero:
  assumes "enable s = 0" and "\<not> lock_held s"
  shows "tegra210_xusb_padctl_disable env s = Some (0, s\<lparr>trace := trace s @ [Warn_on]\<rparr>)"
  using assms
  by (cases s) (simp add: tegra210_xusb_padctl_disable_def mutex_lock_def mutex_unlock_def
        warn_on_def)

lemma enable_first:
  assumes "enable s = 0" and "\<not> lock_held s"
      and "0 \<le> clk_prepare_enable env Plle"
      and "t210b01_compatible_ret env = 1 \<longrightarrow> 0 \<le> clk_prepare_enable env Uphy_mgmt_clk"
  shows "\<exists>S. tegra210_xusb_padctl_enable env s = Some (0, mutex_unlock
           (padctl_update env XUSB_PADCTL_ELPG_PROGRAM_1
              (\<lambda>value. value AND NOT AUX_MUX_LP0_VCORE_DOWN)
             (usleep_range env 100 200
               (padctl_update env XUSB_PADCTL_ELPG_PROGRAM_1
                  (\<lambda>value. value AND NOT AUX_MUX_LP0_CLAMP_EN_EARLY)
                 (usleep_range env 100 200
                   (padctl_update env XUSB_PADCTL_ELPG_PROGRAM_1
                      (\<lambda>value. value AND NOT AUX_MUX_LP0_CLAMP_EN) S)))))) \<and>
         enable S = 1 \<and>
         steps (trace S) = steps (trace s) @
           E (Clk_prepare_enable Plle) #
           (if t210b01_compatible_ret env = 1 then [E (Clk_prepare_enable Uphy_mgmt_clk)] else []) @
           pex_uphy_steps (t210b01_compatible_ret env) @
           (if t210b01_compatible_ret env = 0 then sata_uphy_steps else []) @
           [E Plle_hw_sequence_start]"
proof -
  define s0 where "s0 = s\<lparr>lock_held := True, enable := enable s + 1\<rparr>"
  define s1 where "s1 = ext_call (Clk_prepare_enable Plle)
      (if plle_hw_sequence_is_enabled env then dev_err ''PLLE was in HW before init!'' s0 else s0)"
  define s2 where "s2 =
      (if t210b01_compatible_ret env = 1
       then ext_call (Clk_prepare_enable Uphy_mgmt_clk) (snd (t210b01_compatible env s1))
       else snd (t210b01_compatible env s1))"
  define s3 where "s3 = snd (t210b01_compatible env (snd (tegra210_pex_uphy_enable env s2)))"
  define s4 where "s4 =
      (if t210b01_compatible_ret env = 0 then snd (tegra210_sata_uphy_enable env s3) else s3)"
  define S where "S = ext_call Plle_hw_sequence_start s4"
  have "tegra210_xusb_padctl_enable env s = Some (0, mutex_unlock
           (padctl_update env XUSB_PADCTL_ELPG_PROGRAM_1
              (\<lambda>value. value AND NOT AUX_MUX_LP0_VCORE_DOWN)
             (usleep_range env 100 200
               (padctl_update env XUSB_PADCTL_ELPG_PROGRAM_1
                  (\<lambda>value. value AND NOT AUX_MUX_LP0_CLAMP_EN_EARLY)
                 (usleep_range env 100 200
                   (padctl_update env XUSB_PADCTL_ELPG_PROGRAM_1
                      (\<lambda>value. value AND NOT AUX_MUX_LP0_CLAMP_EN) S))))))"
  proof (cases "t210b01_compatible_ret env = 1")
    case True
    with assms show ?thesis
      by (simp add: tegra210_xusb_padctl_enable_def Let_def split_beta
            S_def s4_def s3_def s2_def s1_def s0_def split del: if_split cong del: if_weak_cong)
  next
    case False
    with assms show ?thesis
      by (simp add: tegra210_xusb_padctl_enable_def Let_def split_beta
            S_def s4_def s3_def s2_def s1_def s0_def split del: if_split cong del: if_weak_cong)
  qed
  moreover have "enable S = 1"
    using assms by (simp add: S_def s4_def s3_def s2_def s1_def s0_def)
  moreover have "steps (trace S) = steps (trace s) @
           E (Clk_prepare_enable Plle) #
           (if t210b01_compatible_ret env = 1 then [E (Clk_prepare_enable Uphy_mgmt_clk)] else []) @
           pex_uphy_steps (t210b01_compatible_ret env) @
           (if t210b01_compatible_ret env = 0 then sata_uphy_steps else []) @
           [E Plle_hw_sequence_start]"
    by (simp add: S_def s4_def s3_def s2_def s1_def s0_def pex_steps sata_steps)
  ultimately show ?thesis by blast
qed


lemma clamp_bits:
  "(x AND NOT b) AND b = (0::u32)" "(x OR b) AND b = (b::u32)"
  by (rule bit_cleared, rule bit_was_set)

text \<open>An early return after the increment, before the unlock.\<close>

lemma enable_clk_failure:
  assumes "enable s = 0" and "\<not> lock_held s" and "clk_prepare_enable env Plle < 0"
  shows "\<exists>s'. tegra210_xusb_padctl_enable env s = Some (clk_prepare_enable env Plle, s') \<and>
              enable s' = 1 \<and> lock_held s'"
  using assms
  by (simp add: tegra210_xusb_padctl_enable_def Let_def split del: if_split
        cong del: if_weak_cong)

lemma enable_blocked:
  "lock_held s \<Longrightarrow> tegra210_xusb_padctl_enable env s = None"
  by (simp add: tegra210_xusb_padctl_enable_def)

lemma enable_mgmt_clk_failure:
  assumes "enable s = 0" and "\<not> lock_held s" and "0 \<le> clk_prepare_enable env Plle"
      and "t210b01_compatible_ret env = 1" and "clk_prepare_enable env Uphy_mgmt_clk < 0"
  shows "\<exists>s'. tegra210_xusb_padctl_enable env s = Some (clk_prepare_enable env Uphy_mgmt_clk, s') \<and>
              enable s' = 1 \<and> lock_held s'"
  using assms
  by (simp add: tegra210_xusb_padctl_enable_def Let_def split_beta split del: if_split
        cong del: if_weak_cong)

lemma first_enable_returned:
  assumes "enable s = 0" and "\<not> lock_held s"
      and "tegra210_xusb_padctl_enable env s = Some (r1, s1)"
      and "tegra210_xusb_padctl_enable env s1 = Some (r2, s2)"
  shows "0 \<le> clk_prepare_enable env Plle"
    and "t210b01_compatible_ret env = 1 \<longrightarrow> 0 \<le> clk_prepare_enable env Uphy_mgmt_clk"
proof -
  show plle: "0 \<le> clk_prepare_enable env Plle"
  proof (rule ccontr)
    assume "\<not> 0 \<le> clk_prepare_enable env Plle"
    then have "clk_prepare_enable env Plle < 0" by simp
    from enable_clk_failure [OF assms(1,2) this] assms(3) have "lock_held s1" by auto
    from enable_blocked [OF this] assms(4) show False by simp
  qed
  show "t210b01_compatible_ret env = 1 \<longrightarrow> 0 \<le> clk_prepare_enable env Uphy_mgmt_clk"
  proof (intro impI, rule ccontr)
    assume b01: "t210b01_compatible_ret env = 1"
    assume "\<not> 0 \<le> clk_prepare_enable env Uphy_mgmt_clk"
    then have "clk_prepare_enable env Uphy_mgmt_clk < 0" by simp
    from enable_mgmt_clk_failure [OF assms(1,2) plle b01 this] assms(3)
    have "lock_held s1" by auto
    from enable_blocked [OF this] assms(4) show False by simp
  qed
qed



text \<open>
  C5. The failing input: the count at zero, the lock free, and \<open>clk_prepare_enable\<close>
  of PLLE returning \<open>-EINVAL\<close>. The call returns that error, after the increment and
  without the unlock: the count is 1 and the mutex is still held.
\<close>

theorem enable_clk_failure_example:
  "tegra210_xusb_padctl_enable clk_fails_env example_state =
     Some (- EINVAL,
           example_state\<lparr>trace := [Ext (Clk_prepare_enable Plle)], enable := 1,
                           lock_held := True\<rparr>)"
  by (simp add: tegra210_xusb_padctl_enable_def Let_def clk_fails_env_def example_env_def
        example_state_def mutex_lock_def ext_call_def)

text \<open>
  C8. With the lock free, \<open>disable\<close> at count zero returns 0 and changes nothing: the
  state after it is the state before with the warning of \<open>WARN_ON\<close> appended to the
  trace, so there is no decrement and no register write. In every state the count
  after the call is the count before minus one, cut off at zero: the decrement is
  never applied to a zero count, so the unsigned count never wraps.
\<close>

theorem disable_at_zero:
  assumes "\<not> lock_held s"
  shows "(enable s = 0 \<longrightarrow>
            tegra210_xusb_padctl_disable env s = Some (0, s\<lparr>trace := trace s @ [Warn_on]\<rparr>)) \<and>
         (\<exists>s'. tegra210_xusb_padctl_disable env s = Some (0, s') \<and>
               unat (enable s') = unat (enable s) - 1)"
proof (intro conjI impI)
  assume "enable s = 0"
  then show "tegra210_xusb_padctl_disable env s = Some (0, s\<lparr>trace := trace s @ [Warn_on]\<rparr>)"
    using assms by (rule disable_zero)
next
  consider "enable s = 0" | "enable s = 1" | "enable s \<noteq> 0" "enable s \<noteq> 1" by blast
  then show "\<exists>s'. tegra210_xusb_padctl_disable env s = Some (0, s') \<and>
               unat (enable s') = unat (enable s) - 1"
  proof cases
    case 1
    with assms show ?thesis by (simp add: disable_zero)
  next
    case 2
    with assms show ?thesis by (simp add: disable_last)
  next
    case 3
    with assms show ?thesis by (simp add: disable_nested unat_minus_one)
  qed
qed

theorem disable_at_zero_witness:
  "enable example_state = 0 \<and> \<not> lock_held example_state \<and>
   tegra210_xusb_padctl_disable example_env example_state =
     Some (0, example_state\<lparr>trace := [Warn_on]\<rparr>)"
  using disable_at_zero [of example_state example_env]
  by (simp add: example_state_def)

subsection \<open>PLL calibration: time-outs and the reset (C1, C4)\<close>

text \<open>The last six actions of either function: the hand-over and the three overrides.\<close>

lemma pex_tail:
  "\<exists>S. snd (tegra210_pex_uphy_enable env s) =
     ext_call Xusb_pll_hw_sequence_start
       (usleep_range env 10 20
         (padctl_update env XUSB_PADCTL_UPHY_PLL_P0_CTL8
            (\<lambda>value. value AND NOT XUSB_PADCTL_UPHY_PLL_CTL8_RCAL_OVRD)
           (padctl_update env XUSB_PADCTL_UPHY_PLL_P0_CTL2
              (\<lambda>value. value AND NOT XUSB_PADCTL_UPHY_PLL_CTL2_CAL_OVRD)
             (padctl_update env XUSB_PADCTL_UPHY_PLL_P0_CTL1
                (\<lambda>value. value AND NOT XUSB_PADCTL_UPHY_PLL_CTL1_PWR_OVRD)
               (ext_call Xusb_pll_hw_control_enable S)))))"
  unfolding tegra210_pex_uphy_enable_def Let_def split_beta snd_conv
  by (rule exI) (rule refl)

lemma sata_tail:
  "\<exists>S. snd (tegra210_sata_uphy_enable env s) =
     ext_call Sata_pll_hw_sequence_start
       (usleep_range env 10 20
         (padctl_update env XUSB_PADCTL_UPHY_PLL_S0_CTL8
            (\<lambda>value. value AND NOT XUSB_PADCTL_UPHY_PLL_CTL8_RCAL_OVRD)
           (padctl_update env XUSB_PADCTL_UPHY_PLL_S0_CTL2
              (\<lambda>value. value AND NOT XUSB_PADCTL_UPHY_PLL_CTL2_CAL_OVRD)
             (padctl_update env XUSB_PADCTL_UPHY_PLL_S0_CTL1
                (\<lambda>value. value AND NOT XUSB_PADCTL_UPHY_PLL_CTL1_PWR_OVRD)
               (ext_call Sata_pll_hw_control_enable S)))))"
  unfolding tegra210_sata_uphy_enable_def Let_def split_beta snd_conv
  by (rule exI) (rule refl)

lemma pex_overrides_cleared:
  "regs (snd (tegra210_pex_uphy_enable env s)) XUSB_PADCTL_UPHY_PLL_P0_CTL1
     AND XUSB_PADCTL_UPHY_PLL_CTL1_PWR_OVRD = 0"
  "regs (snd (tegra210_pex_uphy_enable env s)) XUSB_PADCTL_UPHY_PLL_P0_CTL2
     AND XUSB_PADCTL_UPHY_PLL_CTL2_CAL_OVRD = 0"
  "regs (snd (tegra210_pex_uphy_enable env s)) XUSB_PADCTL_UPHY_PLL_P0_CTL8
     AND XUSB_PADCTL_UPHY_PLL_CTL8_RCAL_OVRD = 0"
  using pex_tail [of env s] bit_cleared [where 'a = 32]
  by (auto simp del: push_bit_of_1)

lemma sata_overrides_cleared:
  "regs (snd (tegra210_sata_uphy_enable env s)) XUSB_PADCTL_UPHY_PLL_S0_CTL1
     AND XUSB_PADCTL_UPHY_PLL_CTL1_PWR_OVRD = 0"
  "regs (snd (tegra210_sata_uphy_enable env s)) XUSB_PADCTL_UPHY_PLL_S0_CTL2
     AND XUSB_PADCTL_UPHY_PLL_CTL2_CAL_OVRD = 0"
  "regs (snd (tegra210_sata_uphy_enable env s)) XUSB_PADCTL_UPHY_PLL_S0_CTL8
     AND XUSB_PADCTL_UPHY_PLL_CTL8_RCAL_OVRD = 0"
  using sata_tail [of env s] bit_cleared [where 'a = 32]
  by (auto simp del: push_bit_of_1)

text \<open>A poll whose condition the hardware never meets runs until its deadline.\<close>

lemma poll_loop_exhausts:
  assumes "\<And>t r. (hw_read env t r offset AND flag \<noteq> 0) \<noteq> want"
  shows "timeout \<le> clock (poll_loop env offset flag want timeout s)"
  using assms
proof (induction env offset flag want timeout s rule: poll_loop.induct)
  case (1 env offset flag want timeout s)
  show ?case
  proof (cases "time_before (jiffies s) timeout")
    case True
    moreover have "(padctl_readl env s offset AND flag \<noteq> 0) \<noteq> want"
      using "1.prems" by (simp add: padctl_readl_def)
    ultimately have "poll_loop env offset flag want timeout s =
        poll_loop env offset flag want timeout (usleep_range env 10 20 s)"
      by (subst poll_loop.simps) (simp add: Let_def)
    moreover have "timeout \<le> clock (poll_loop env offset flag want timeout (usleep_range env 10 20 s))"
      using True \<open>(padctl_readl env s offset AND flag \<noteq> 0) \<noteq> want\<close> "1.prems"
      by (intro "1.IH") auto
    ultimately show ?thesis by simp
  next
    case False
    then have "poll_loop env offset flag want timeout s = s"
      by (subst poll_loop.simps) simp
    with False show ?thesis by (simp add: time_before_def jiffies_def)
  qed
qed

lemma poll_times_out:
  assumes "\<And>t r. (hw_read env t r offset AND flag \<noteq> 0) \<noteq> want"
  shows "fst (poll env offset flag want s)"
  using poll_loop_exhausts [OF assms]
  by (simp add: poll_def Let_def time_after_eq_def jiffies_def)

lemma logged_if [simp]:
  "logged m (if b then (x::state) else y) = (if b then logged m x else logged m y)"
  by simp

lemma pex_timeout_logged:
  assumes "(offset, flag, want) \<in> set pex_polls"
      and "\<And>t r. (hw_read env t r offset AND flag \<noteq> 0) \<noteq> want"
  shows "logged ''UPHY PEX PLL calibration timeout'' (snd (tegra210_pex_uphy_enable env s))"
proof -
  have P: "fst (poll env offset flag want S)" for S
    by (rule poll_times_out) (rule assms(2))
  from assms(1) consider
      "offset = fst (pex_polls ! 0)" "flag = fst (snd (pex_polls ! 0))" "want"
    | "offset = fst (pex_polls ! 1)" "flag = fst (snd (pex_polls ! 1))" "\<not> want"
    | "offset = fst (pex_polls ! 2)" "flag = fst (snd (pex_polls ! 2))" "want"
    | "offset = fst (pex_polls ! 3)" "flag = fst (snd (pex_polls ! 3))" "want"
    | "offset = fst (pex_polls ! 4)" "flag = fst (snd (pex_polls ! 4))" "\<not> want"
    by (auto simp: pex_polls_def)
  then show ?thesis
  proof cases
    case 1
    with P have "fst (poll env (fst (pex_polls ! 0)) (fst (snd (pex_polls ! 0))) True S)" for S
      by simp
    then show ?thesis
      by (simp add: pex_polls_def tegra210_pex_uphy_enable_def Let_def split_beta
            cong del: if_weak_cong)
  next
    case 2
    with P have "fst (poll env (fst (pex_polls ! 1)) (fst (snd (pex_polls ! 1))) False S)" for S
      by simp
    then show ?thesis
      by (simp add: pex_polls_def tegra210_pex_uphy_enable_def Let_def split_beta
            cong del: if_weak_cong)
  next
    case 3
    with P have "fst (poll env (fst (pex_polls ! 2)) (fst (snd (pex_polls ! 2))) True S)" for S
      by simp
    then show ?thesis
      by (simp add: pex_polls_def tegra210_pex_uphy_enable_def Let_def split_beta
            cong del: if_weak_cong)
  next
    case 4
    with P have "fst (poll env (fst (pex_polls ! 3)) (fst (snd (pex_polls ! 3))) True S)" for S
      by simp
    then show ?thesis
      by (simp add: pex_polls_def tegra210_pex_uphy_enable_def Let_def split_beta
            cong del: if_weak_cong)
  next
    case 5
    with P have "fst (poll env (fst (pex_polls ! 4)) (fst (snd (pex_polls ! 4))) False S)" for S
      by simp
    then show ?thesis
      by (simp add: pex_polls_def tegra210_pex_uphy_enable_def Let_def split_beta
            cong del: if_weak_cong)
  qed
qed

lemma sata_timeout_logged:
  assumes "(offset, flag, want) \<in> set sata_polls"
      and "\<And>t r. (hw_read env t r offset AND flag \<noteq> 0) \<noteq> want"
  shows "logged ''UPHY SATA PLL calibration timeout'' (snd (tegra210_sata_uphy_enable env s))"
proof -
  have P: "fst (poll env offset flag want S)" for S
    by (rule poll_times_out) (rule assms(2))
  from assms(1) consider
      "offset = fst (sata_polls ! 0)" "flag = fst (snd (sata_polls ! 0))" "want"
    | "offset = fst (sata_polls ! 1)" "flag = fst (snd (sata_polls ! 1))" "\<not> want"
    | "offset = fst (sata_polls ! 2)" "flag = fst (snd (sata_polls ! 2))" "want"
    | "offset = fst (sata_polls ! 3)" "flag = fst (snd (sata_polls ! 3))" "want"
    | "offset = fst (sata_polls ! 4)" "flag = fst (snd (sata_polls ! 4))" "\<not> want"
    by (auto simp: sata_polls_def)
  then show ?thesis
  proof cases
    case 1
    with P have "fst (poll env (fst (sata_polls ! 0)) (fst (snd (sata_polls ! 0))) True S)" for S
      by simp
    then show ?thesis
      by (simp add: sata_polls_def tegra210_sata_uphy_enable_def Let_def split_beta
            cong del: if_weak_cong)
  next
    case 2
    with P have "fst (poll env (fst (sata_polls ! 1)) (fst (snd (sata_polls ! 1))) False S)" for S
      by simp
    then show ?thesis
      by (simp add: sata_polls_def tegra210_sata_uphy_enable_def Let_def split_beta
            cong del: if_weak_cong)
  next
    case 3
    with P have "fst (poll env (fst (sata_polls ! 2)) (fst (snd (sata_polls ! 2))) True S)" for S
      by simp
    then show ?thesis
      by (simp add: sata_polls_def tegra210_sata_uphy_enable_def Let_def split_beta
            cong del: if_weak_cong)
  next
    case 4
    with P have "fst (poll env (fst (sata_polls ! 3)) (fst (snd (sata_polls ! 3))) True S)" for S
      by simp
    then show ?thesis
      by (simp add: sata_polls_def tegra210_sata_uphy_enable_def Let_def split_beta
            cong del: if_weak_cong)
  next
    case 5
    with P have "fst (poll env (fst (sata_polls ! 4)) (fst (snd (sata_polls ! 4))) False S)" for S
      by simp
    then show ?thesis
      by (simp add: sata_polls_def tegra210_sata_uphy_enable_def Let_def split_beta
            cong del: if_weak_cong)
  qed
qed

lemma pex_reset_failure_logged:
  assumes "reset_control_deassert env Pcie_rst < 0"
  shows "logged ''failed to deassert UPHY PEX PLL reset'' (snd (tegra210_pex_uphy_enable env s))"
  using assms
  by (simp add: tegra210_pex_uphy_enable_def Let_def split_beta usb3_pll_g1_init_data_def)

lemma sata_reset_failure_logged:
  assumes "reset_control_deassert env Sata_rst < 0"
  shows "logged ''failed to deassert UPHY SATA PLL reset'' (snd (tegra210_sata_uphy_enable env s))"
  using assms
  by (simp add: tegra210_sata_uphy_enable_def Let_def split_beta)



text \<open>
  C1. For either PLL and every behaviour of the hardware, hence whatever the five polls
  do: the function returns 0; its steps are always the same full list, up to the
  hand-over to the hardware sequencer and the three writes that follow it; and the
  last value written to each of the three control registers has its override bit
  clear. A poll that the hardware can never satisfy runs out of time, which is
  recorded (the time-out message is logged), and all of the above still holds.
\<close>

theorem poll_timeout_does_not_abort:
  "fst (tegra210_pex_uphy_enable env s) = 0 \<and>
   steps (trace (snd (tegra210_pex_uphy_enable env s)))
     = steps (trace s) @ pex_uphy_steps (t210b01_compatible_ret env) \<and>
   regs (snd (tegra210_pex_uphy_enable env s)) XUSB_PADCTL_UPHY_PLL_P0_CTL1
     AND XUSB_PADCTL_UPHY_PLL_CTL1_PWR_OVRD = 0 \<and>
   regs (snd (tegra210_pex_uphy_enable env s)) XUSB_PADCTL_UPHY_PLL_P0_CTL2
     AND XUSB_PADCTL_UPHY_PLL_CTL2_CAL_OVRD = 0 \<and>
   regs (snd (tegra210_pex_uphy_enable env s)) XUSB_PADCTL_UPHY_PLL_P0_CTL8
     AND XUSB_PADCTL_UPHY_PLL_CTL8_RCAL_OVRD = 0 \<and>
   ((offset, flag, want) \<in> set pex_polls \<and>
    (\<forall>t r. (hw_read env t r offset AND flag \<noteq> 0) \<noteq> want) \<longrightarrow>
      logged ''UPHY PEX PLL calibration timeout'' (snd (tegra210_pex_uphy_enable env s))) \<and>
   fst (tegra210_sata_uphy_enable env s) = 0 \<and>
   steps (trace (snd (tegra210_sata_uphy_enable env s))) = steps (trace s) @ sata_uphy_steps \<and>
   regs (snd (tegra210_sata_uphy_enable env s)) XUSB_PADCTL_UPHY_PLL_S0_CTL1
     AND XUSB_PADCTL_UPHY_PLL_CTL1_PWR_OVRD = 0 \<and>
   regs (snd (tegra210_sata_uphy_enable env s)) XUSB_PADCTL_UPHY_PLL_S0_CTL2
     AND XUSB_PADCTL_UPHY_PLL_CTL2_CAL_OVRD = 0 \<and>
   regs (snd (tegra210_sata_uphy_enable env s)) XUSB_PADCTL_UPHY_PLL_S0_CTL8
     AND XUSB_PADCTL_UPHY_PLL_CTL8_RCAL_OVRD = 0 \<and>
   ((offset', flag', want') \<in> set sata_polls \<and>
    (\<forall>t r. (hw_read env t r offset' AND flag' \<noteq> 0) \<noteq> want') \<longrightarrow>
      logged ''UPHY SATA PLL calibration timeout'' (snd (tegra210_sata_uphy_enable env s)))"
  by (intro conjI impI pex_frame(4) sata_frame(4) pex_steps sata_steps
        pex_overrides_cleared sata_overrides_cleared)
     (blast intro: pex_timeout_logged sata_timeout_logged)+

text \<open>
  An instance: hardware whose registers always read zero. The first poll of the PCIe
  PLL (for calibration done) can never succeed; the time-out is logged, the function
  returns 0 and the steps are the full list, ending with the hand-over.
\<close>

theorem poll_timeout_does_not_abort_witness:
  "(XUSB_PADCTL_UPHY_PLL_P0_CTL2, XUSB_PADCTL_UPHY_PLL_CTL2_CAL_DONE, True) \<in> set pex_polls \<and>
   (\<forall>t r. (hw_read dead_hw_env t r XUSB_PADCTL_UPHY_PLL_P0_CTL2
              AND XUSB_PADCTL_UPHY_PLL_CTL2_CAL_DONE \<noteq> 0) \<noteq> True) \<and>
   logged ''UPHY PEX PLL calibration timeout''
     (snd (tegra210_pex_uphy_enable dead_hw_env example_state)) \<and>
   fst (tegra210_pex_uphy_enable dead_hw_env example_state) = 0 \<and>
   steps (trace (snd (tegra210_pex_uphy_enable dead_hw_env example_state))) = pex_uphy_steps 0 \<and>
   last (pex_uphy_steps 0) = E Xusb_pll_hw_sequence_start"
  using poll_timeout_does_not_abort [of dead_hw_env example_state
          XUSB_PADCTL_UPHY_PLL_P0_CTL2 XUSB_PADCTL_UPHY_PLL_CTL2_CAL_DONE True]
  by (simp add: dead_hw_env_def example_env_def example_state_def pex_polls_def
        t210b01_compatible_ret_def pex_uphy_steps_def)

text \<open>
  C4, as claimed, fails: with a reset controller that returns \<open>-EINVAL\<close>, the PCIe
  calibration does not return that code but 0, and it performs all its steps.
\<close>

theorem reset_failure_counterexample:
  "reset_control_deassert reset_fails_env Pcie_rst = - EINVAL \<and>
   fst (tegra210_pex_uphy_enable reset_fails_env example_state) \<noteq> - EINVAL \<and>
   fst (tegra210_pex_uphy_enable reset_fails_env example_state) = 0 \<and>
   steps (trace (snd (tegra210_pex_uphy_enable reset_fails_env example_state)))
     = pex_uphy_steps 0"
proof -
  have "t210b01_compatible_ret reset_fails_env = 0"
    by (simp add: t210b01_compatible_ret_def reset_fails_env_def example_env_def)
  then show ?thesis
    using pex_steps [of reset_fails_env example_state]
    by (simp add: reset_fails_env_def example_state_def)
qed

text \<open>
  C4, amended. A failed deassert of the PLL's reset (a negative result of
  \<open>reset_control_deassert\<close>) is logged and nothing more: the function still performs
  every step of the sequence and returns 0; the code of the reset is not returned.
\<close>

theorem reset_failure_is_only_logged:
  "(reset_control_deassert env Pcie_rst < 0 \<longrightarrow>
      logged ''failed to deassert UPHY PEX PLL reset'' (snd (tegra210_pex_uphy_enable env s)) \<and>
      fst (tegra210_pex_uphy_enable env s) = 0 \<and>
      steps (trace (snd (tegra210_pex_uphy_enable env s)))
        = steps (trace s) @ pex_uphy_steps (t210b01_compatible_ret env)) \<and>
   (reset_control_deassert env Sata_rst < 0 \<longrightarrow>
      logged ''failed to deassert UPHY SATA PLL reset'' (snd (tegra210_sata_uphy_enable env s)) \<and>
      fst (tegra210_sata_uphy_enable env s) = 0 \<and>
      steps (trace (snd (tegra210_sata_uphy_enable env s))) = steps (trace s) @ sata_uphy_steps)"
  by (intro conjI impI pex_frame(4) sata_frame(4) pex_steps sata_steps
        pex_reset_failure_logged sata_reset_failure_logged)

theorem reset_failure_is_only_logged_witness:
  "reset_control_deassert reset_fails_env Sata_rst < 0 \<and>
   logged ''failed to deassert UPHY SATA PLL reset''
     (snd (tegra210_sata_uphy_enable reset_fails_env example_state)) \<and>
   fst (tegra210_sata_uphy_enable reset_fails_env example_state) = 0 \<and>
   steps (trace (snd (tegra210_sata_uphy_enable reset_fails_env example_state))) = sata_uphy_steps"
  using reset_failure_is_only_logged [of reset_fails_env example_state]
  by (simp add: reset_fails_env_def example_state_def)

subsection \<open>USB3 port power sequences (C6, C7)\<close>

lemma map_field:
  "(((x AND NOT (XUSB_PADCTL_SS_PORT_MAP_PORTX_MAP_MASK i))
      OR XUSB_PADCTL_SS_PORT_MAP_PORTX_MAP i p) AND XUSB_PADCTL_SS_PORT_MAP_PORTX_MAP_MASK i)
   = XUSB_PADCTL_SS_PORT_MAP_PORTX_MAP i p"
  by (subst field_set) (simp flip: push_bit_and add: and.assoc)

lemma trim_fields:
  "((x AND NOT (push_bit XUSB_PADCTL_UPHY_USB3_PAD_ECTL1_TX_TERM_CTRL_SHIFT
                  XUSB_PADCTL_UPHY_USB3_PAD_ECTL1_TX_TERM_CTRL_MASK))
     OR push_bit XUSB_PADCTL_UPHY_USB3_PAD_ECTL1_TX_TERM_CTRL_SHIFT
          XUSB_PADCTL_UPHY_USB3_PAD_ECTL1_TX_TERM_CTRL_VAL)
    AND push_bit XUSB_PADCTL_UPHY_USB3_PAD_ECTL1_TX_TERM_CTRL_SHIFT
          XUSB_PADCTL_UPHY_USB3_PAD_ECTL1_TX_TERM_CTRL_MASK
   = push_bit XUSB_PADCTL_UPHY_USB3_PAD_ECTL1_TX_TERM_CTRL_SHIFT
       XUSB_PADCTL_UPHY_USB3_PAD_ECTL1_TX_TERM_CTRL_VAL"
  "((x AND NOT (push_bit XUSB_PADCTL_UPHY_USB3_PAD_ECTL2_RX_CTLE_SHIFT
                  XUSB_PADCTL_UPHY_USB3_PAD_ECTL2_RX_CTLE_MASK))
     OR push_bit XUSB_PADCTL_UPHY_USB3_PAD_ECTL2_RX_CTLE_SHIFT
          XUSB_PADCTL_UPHY_USB3_PAD_ECTL2_RX_CTLE_VAL)
    AND push_bit XUSB_PADCTL_UPHY_USB3_PAD_ECTL2_RX_CTLE_SHIFT
          XUSB_PADCTL_UPHY_USB3_PAD_ECTL2_RX_CTLE_MASK
   = push_bit XUSB_PADCTL_UPHY_USB3_PAD_ECTL2_RX_CTLE_SHIFT
       XUSB_PADCTL_UPHY_USB3_PAD_ECTL2_RX_CTLE_VAL"
  "((x AND NOT (push_bit XUSB_PADCTL_UPHY_USB3_PAD_ECTL4_RX_CDR_CTRL_SHIFT
                  XUSB_PADCTL_UPHY_USB3_PAD_ECTL4_RX_CDR_CTRL_MASK))
     OR push_bit XUSB_PADCTL_UPHY_USB3_PAD_ECTL4_RX_CDR_CTRL_SHIFT
          XUSB_PADCTL_UPHY_USB3_PAD_ECTL4_RX_CDR_CTRL_VAL)
    AND push_bit XUSB_PADCTL_UPHY_USB3_PAD_ECTL4_RX_CDR_CTRL_SHIFT
          XUSB_PADCTL_UPHY_USB3_PAD_ECTL4_RX_CDR_CTRL_MASK
   = push_bit XUSB_PADCTL_UPHY_USB3_PAD_ECTL4_RX_CDR_CTRL_SHIFT
       XUSB_PADCTL_UPHY_USB3_PAD_ECTL4_RX_CDR_CTRL_VAL"
  by (subst field_set, simp)+

lemma internal_flag:
  "(((if \<not> b then x AND NOT (XUSB_PADCTL_SS_PORT_MAP_PORTX_INTERNAL i)
      else x OR XUSB_PADCTL_SS_PORT_MAP_PORTX_INTERNAL i)
     AND NOT (XUSB_PADCTL_SS_PORT_MAP_PORTX_MAP_MASK i))
    OR XUSB_PADCTL_SS_PORT_MAP_PORTX_MAP i p) AND XUSB_PADCTL_SS_PORT_MAP_PORTX_INTERNAL i
   = (if b then XUSB_PADCTL_SS_PORT_MAP_PORTX_INTERNAL i else 0)"
  by (rule bit_word_eqI) (auto simp: bit_simps)

lemma other_ports_kept:
  "(((if \<not> b then x AND NOT (XUSB_PADCTL_SS_PORT_MAP_PORTX_INTERNAL i)
      else x OR XUSB_PADCTL_SS_PORT_MAP_PORTX_INTERNAL i)
     AND NOT (XUSB_PADCTL_SS_PORT_MAP_PORTX_MAP_MASK i))
    OR XUSB_PADCTL_SS_PORT_MAP_PORTX_MAP i p)
     AND NOT (XUSB_PADCTL_SS_PORT_MAP_PORTX_MAP_MASK i OR XUSB_PADCTL_SS_PORT_MAP_PORTX_INTERNAL i)
   = x AND NOT (XUSB_PADCTL_SS_PORT_MAP_PORTX_MAP_MASK i OR XUSB_PADCTL_SS_PORT_MAP_PORTX_INTERNAL i)"
  by (rule bit_word_eqI) (auto simp: bit_simps)

lemma map_register_kept:
  "regs (snd (tegra210_usb3_port_enable env usb3 s)) XUSB_PADCTL_SS_PORT_MAP =
     ((if \<not> internal usb3
       then padctl_readl env s XUSB_PADCTL_SS_PORT_MAP
              AND NOT (XUSB_PADCTL_SS_PORT_MAP_PORTX_INTERNAL (port_index usb3))
       else padctl_readl env s XUSB_PADCTL_SS_PORT_MAP
              OR XUSB_PADCTL_SS_PORT_MAP_PORTX_INTERNAL (port_index usb3))
      AND NOT (XUSB_PADCTL_SS_PORT_MAP_PORTX_MAP_MASK (port_index usb3)))
     OR XUSB_PADCTL_SS_PORT_MAP_PORTX_MAP (port_index usb3) (port usb3)"
  unfolding tegra210_usb3_port_enable_def Let_def snd_conv
  by (simp only: padctl_update_simps padctl_writel_simps usleep_range_simps)
     (simp del: push_bit_of_1 split del: if_split)







subsection \<open>The OTG handler (C9)\<close>

lemma vbus_power_off_events:
  assumes "tegra210_xusb_padctl_vbus_power_off env index s = Some (rc, s')"
  shows "\<exists>evs. trace s' = trace s @ evs \<and> (\<forall>e \<in> set evs. \<not> switches_vbus_on e)"
  using assms
  by (auto simp: tegra210_xusb_padctl_vbus_power_off_def Let_def mutex_lock_def
           split: option.splits if_splits)

lemma handler_no_power_on:
  assumes "tegra210_xusb_padctl_otg_vbus_handle env index s = Some s'"
      and "padctl_readl env s XUSB_PADCTL_USB2_VBUS_ID AND ID_OVERRIDE (NOT 0)
             \<noteq> ID_OVERRIDE_GROUNDED"
  shows "\<exists>evs. trace s' = trace s @ evs \<and> (\<forall>e \<in> set evs. \<not> switches_vbus_on e)"
proof (cases "padctl_readl env s XUSB_PADCTL_USB2_VBUS_ID AND ID_OVERRIDE (NOT 0)
                = ID_OVERRIDE_FLOATING \<and> otg_vbus_on s")
  case True
  with assms obtain rc s1 where
    off: "tegra210_xusb_padctl_vbus_power_off env index s = Some (rc, s1)"
    and s': "s' = (if rc = 0 then s1\<lparr>otg_vbus_on := False\<rparr> else s1)"
    by (auto simp: tegra210_xusb_padctl_otg_vbus_handle_def Let_def split: option.splits)
  from vbus_power_off_events [OF off] s' show ?thesis by auto
next
  case False
  with assms have "s' = s"
    by (auto simp: tegra210_xusb_padctl_otg_vbus_handle_def Let_def split: if_splits)
  then show ?thesis by simp
qed

text \<open>
  C9. After any sequence of overrides and handler runs, when a run of the handler
  produces an event that switches bus power on, the ID-override field of the VBUS/ID
  register, as the handler read it, is ``grounded'' (and so not ``floating''). The
  handler decides on the register alone, so this holds in every state, whichever
  calls led to it.
\<close>

theorem otg_vbus_on_only_when_grounded:
  assumes "otg_run env ops s0 = Some s"
      and "tegra210_xusb_padctl_otg_vbus_handle env index s = Some s'"
      and "e \<in> set (drop (length (trace s)) (trace s'))"
      and "switches_vbus_on e"
  shows "padctl_readl env s XUSB_PADCTL_USB2_VBUS_ID AND ID_OVERRIDE (NOT 0)
           = ID_OVERRIDE_GROUNDED \<and>
         padctl_readl env s XUSB_PADCTL_USB2_VBUS_ID AND ID_OVERRIDE (NOT 0)
           \<noteq> ID_OVERRIDE_FLOATING"
proof -
  have "padctl_readl env s XUSB_PADCTL_USB2_VBUS_ID AND ID_OVERRIDE (NOT 0)
           = ID_OVERRIDE_GROUNDED"
  proof (rule ccontr)
    assume "padctl_readl env s XUSB_PADCTL_USB2_VBUS_ID AND ID_OVERRIDE (NOT 0)
              \<noteq> ID_OVERRIDE_GROUNDED"
    from handler_no_power_on [OF assms(2) this] obtain evs where
      "trace s' = trace s @ evs" "\<forall>e \<in> set evs. \<not> switches_vbus_on e"
      by blast
    with assms(3,4) show False by simp
  qed
  then show ?thesis by simp
qed

text \<open>
  An instance, on hardware whose registers read back what was written and a board
  with a VBUS regulator that is off: after \<open>id_override(true)\<close> the handler enables the
  regulator, and the ID field reads ``grounded''. After a further
  \<open>vbus_override(true)\<close>, which makes the field ``floating'', a handler run from a state
  with bus power off produces no event at all.
\<close>

theorem otg_vbus_on_only_when_grounded_witness:
  "(\<exists>s s'. otg_run example_env [Id_override True] example_state = Some s \<and>
      tegra210_xusb_padctl_otg_vbus_handle example_env 0 s = Some s' \<and>
      Ext (Regulator_enable 0) \<in> set (drop (length (trace s)) (trace s')) \<and>
      switches_vbus_on (Ext (Regulator_enable 0)) \<and>
      padctl_readl example_env s XUSB_PADCTL_USB2_VBUS_ID AND ID_OVERRIDE (NOT 0)
        = ID_OVERRIDE_GROUNDED) \<and>
   (\<exists>s s'. otg_run example_env [Id_override True, Vbus_override True] example_state = Some s \<and>
      tegra210_xusb_padctl_otg_vbus_handle example_env 0 s = Some s' \<and>
      padctl_readl example_env s XUSB_PADCTL_USB2_VBUS_ID AND ID_OVERRIDE (NOT 0)
        = ID_OVERRIDE_FLOATING \<and>
      drop (length (trace s)) (trace s') = [])"
proof -
  define s where "s = snd (tegra210_xusb_padctl_id_override example_env True example_state)"
  define s' where "s' = s\<lparr>trace := trace s @ [Ext (Regulator_enable 0)], otg_vbus_on := True\<rparr>"
  have s: "s = example_state\<lparr>trace := [Wr XUSB_PADCTL_USB2_VBUS_ID 0, Schedule_work]\<rparr>"
    by (simp add: s_def tegra210_xusb_padctl_id_override_def Let_def example_state_def
          example_env_def padctl_readl_def padctl_writel_def schedule_work_def fun_eq_iff)
  have r: "otg_run example_env [Id_override True] example_state = Some s"
    by (simp add: s_def)
  have h: "tegra210_xusb_padctl_otg_vbus_handle example_env 0 s = Some s'"
    by (simp add: s s'_def tegra210_xusb_padctl_otg_vbus_handle_def
          tegra210_xusb_padctl_vbus_power_on_def Let_def example_state_def example_env_def
          padctl_readl_def mutex_lock_def mutex_unlock_def ext_call_def)
  have e: "Ext (Regulator_enable 0) \<in> set (drop (length (trace s)) (trace s'))"
    by (simp add: s'_def)
  have on: "switches_vbus_on (Ext (Regulator_enable 0))" by simp
  from otg_vbus_on_only_when_grounded [OF r h e on]
  have g: "padctl_readl example_env s XUSB_PADCTL_USB2_VBUS_ID AND ID_OVERRIDE (NOT 0)
        = ID_OVERRIDE_GROUNDED" ..
  define t where "t = snd (tegra210_xusb_padctl_vbus_override example_env True s)"
  have t: "t = example_state\<lparr>regs := (\<lambda>offset. 0)(XUSB_PADCTL_USB2_VBUS_ID := 0x204000),
      trace := [Wr XUSB_PADCTL_USB2_VBUS_ID 0, Schedule_work,
                Wr XUSB_PADCTL_USB2_VBUS_ID 0x204000, Schedule_work]\<rparr>"
    by (simp add: t_def s tegra210_xusb_padctl_vbus_override_def Let_def example_state_def
          example_env_def padctl_readl_def padctl_writel_def schedule_work_def)
  have r2: "otg_run example_env [Id_override True, Vbus_override True] example_state = Some t"
    by (simp add: t_def s_def)
  have h2: "tegra210_xusb_padctl_otg_vbus_handle example_env 0 t = Some t"
    by (simp add: t tegra210_xusb_padctl_otg_vbus_handle_def Let_def example_state_def
          example_env_def padctl_readl_def)
  have f: "padctl_readl example_env t XUSB_PADCTL_USB2_VBUS_ID AND ID_OVERRIDE (NOT 0)
        = ID_OVERRIDE_FLOATING"
    by (simp add: t example_state_def example_env_def padctl_readl_def)
  from r h e on g r2 h2 f show ?thesis
    by (intro conjI exI [of _ s] exI [of _ s'] exI [of _ t]) simp_all
qed

subsection \<open>The port/lane tables (C3)\<close>

text \<open>
  C3, as claimed, fails for the baseline table: it is not a bijection between ports
  and lanes. Lanes 0 and 3 of the PCIe pad both map back to port 2, and port 2
  resolves to lane 0 only, so the lookups are not inverse on lane 3.
\<close>

theorem usb3_map_counterexample:
  "tegra210_usb3_lane_find_port_index \<lparr>soc_name = ''pcie'', lane_index = 0\<rparr>
     tegra210_usb3_map ''xusb'' = Some 2 \<and>
   tegra210_usb3_lane_find_port_index \<lparr>soc_name = ''pcie'', lane_index = 3\<rparr>
     tegra210_usb3_map ''xusb'' = Some 2 \<and>
   resolve 2 tegra210_usb3_map = Some \<lparr>soc_name = ''pcie'', lane_index = 0\<rparr> \<and>
   \<lparr>soc_name = ''pcie'', lane_index = 0\<rparr> \<noteq> \<lparr>soc_name = ''pcie'', lane_index = (3::u32)\<rparr>"
  by (simp add: tegra210_usb3_map_def)

lemma rows_round_trip:
  assumes "tbl = tegra210_usb3_map \<or> tbl = tegra210b01_usb3_map"
      and "m \<in> set tbl" and "map_type m = Some t"
  shows "tegra210_usb3_lane_find_port_index \<lparr>soc_name = t, lane_index = map_index m\<rparr> tbl f
           = Some (map_port m)"
  using assms
  by (auto simp: tegra210_usb3_map_def tegra210b01_usb3_map_def)

lemma resolve_row:
  assumes "resolve p tbl = Some lane"
  shows "\<exists>m \<in> set tbl. map_port m = p \<and> map_type m = Some (soc_name lane) \<and>
           map_index m = lane_index lane"
  using assms
  by (induction tbl) (auto split: option.splits if_splits)

text \<open>
  C3, amended. In either table, a port that resolves to a lane is what the reverse
  lookup returns for that lane, so two ports never resolve to the same lane. The same
  holds for any row of the table, whichever of a port's rows a lookup picks. The
  revision-B table is a bijection: there the reverse lookup followed by the forward
  one is the identity too. The baseline table is not (two lanes for each of the ports
  2 and 3).
\<close>

theorem usb3_map_round_trip:
  assumes "tbl = tegra210_usb3_map \<or> tbl = tegra210b01_usb3_map"
  shows "(resolve p tbl = Some lane \<longrightarrow>
            tegra210_usb3_lane_find_port_index lane tbl f = Some p) \<and>
         (resolve p tbl = Some lane \<and> resolve q tbl = Some lane \<longrightarrow> p = q) \<and>
         (m \<in> set tbl \<and> map_type m = Some t \<longrightarrow>
            tegra210_usb3_lane_find_port_index \<lparr>soc_name = t, lane_index = map_index m\<rparr> tbl f
              = Some (map_port m)) \<and>
         (tegra210_usb3_lane_find_port_index lane tegra210b01_usb3_map f = Some p \<and> p \<noteq> - 1 \<longrightarrow>
            resolve p tegra210b01_usb3_map = Some lane)"
proof -
  have rt: "tegra210_usb3_lane_find_port_index lane' tbl f = Some p'"
    if "resolve p' tbl = Some lane'" for p' lane'
  proof -
    from resolve_row [OF that] obtain m' where
      "m' \<in> set tbl" "map_port m' = p'" "map_type m' = Some (soc_name lane')"
      "map_index m' = lane_index lane'"
      by blast
    with rows_round_trip [OF assms, of m' "soc_name lane'" f] show ?thesis
      by (cases lane') simp
  qed
  have inj: "p = q" if "resolve p tbl = Some lane" "resolve q tbl = Some lane"
    using rt [OF that(1)] rt [OF that(2)] by simp
  have rev_fwd: "resolve p tegra210b01_usb3_map = Some lane"
    if "tegra210_usb3_lane_find_port_index lane tegra210b01_usb3_map f = Some p" "p \<noteq> - 1"
    using that
    by (cases lane) (auto simp: tegra210b01_usb3_map_def split: if_splits)
  show ?thesis
    using rt inj rev_fwd rows_round_trip [OF assms] by blast
qed

theorem usb3_map_round_trip_witness:
  "resolve 3 tegra210_usb3_map = Some \<lparr>soc_name = ''pcie'', lane_index = 4\<rparr> \<and>
   tegra210_usb3_lane_find_port_index \<lparr>soc_name = ''pcie'', lane_index = 4\<rparr>
     tegra210_usb3_map ''xusb'' = Some 3 \<and>
   resolve 4 tegra210_usb3_map = None"
  using usb3_map_round_trip [of tegra210_usb3_map 3 "\<lparr>soc_name = ''pcie'', lane_index = 4\<rparr>"
          "''xusb''"]
  by (simp add: tegra210_usb3_map_def)

end
